theory Spec2Isabelle
  imports Complex_Main
begin

section \<open>Python values used by the loaders\<close>

text \<open>
  The two loaders, \<^verbatim>\<open>load_acs.py\<close> and \<^verbatim>\<open>load_hud.py\<close>, work on text, on
  floating-point numbers and on tables. Text is modelled as \<^typ>\<open>string\<close> and is taken
  to be ASCII: \<open>lower\<close> changes the letters A to Z only.
\<close>

datatype py_error = KeyError | ValueError | IndexError | FileNotFoundError | ReadError

subsection \<open>Text\<close>

definition upper_letters :: string where
  "upper_letters = ''ABCDEFGHIJKLMNOPQRSTUVWXYZ''"

definition lower_letters :: string where
  "lower_letters = ''abcdefghijklmnopqrstuvwxyz''"

definition lower_char :: "char \<Rightarrow> char" where
  "lower_char c = (case map_of (zip upper_letters lower_letters) c of None \<Rightarrow> c | Some d \<Rightarrow> d)"

text \<open>\<^verbatim>\<open>s.lower()\<close>\<close>
definition lower :: "string \<Rightarrow> string" where
  "lower s = map lower_char s"

text \<open>\<^verbatim>\<open>s.startswith(p)\<close>\<close>
fun startswith :: "string \<Rightarrow> string \<Rightarrow> bool" where
  "startswith s [] = True"
| "startswith [] (p # ps) = False"
| "startswith (c # cs) (p # ps) = (c = p \<and> startswith cs ps)"

text \<open>\<^verbatim>\<open>s.endswith(p)\<close>\<close>
definition endswith :: "string \<Rightarrow> string \<Rightarrow> bool" where
  "endswith s p = startswith (rev s) (rev p)"

text \<open>\<^verbatim>\<open>k in s\<close> for two strings: \<open>k\<close> occurs in \<open>s\<close> as a run of characters.\<close>
fun str_contains :: "string \<Rightarrow> string \<Rightarrow> bool" where
  "str_contains [] k = (k = [])"
| "str_contains (c # cs) k = (startswith (c # cs) k \<or> str_contains cs k)"

text \<open>\<^verbatim>\<open>s.split(sep)[0]\<close> for a non-empty \<open>sep\<close>: the text before its leftmost occurrence,
  all of \<open>s\<close> when there is none.\<close>
fun split_first :: "string \<Rightarrow> string \<Rightarrow> string" where
  "split_first sep [] = []"
| "split_first sep (c # cs) = (if startswith (c # cs) sep then [] else c # split_first sep cs)"

text \<open>The ASCII characters Python counts as whitespace: tab, line feed, vertical tab, form
  feed, carriage return, the four separators 28 to 31, and the space.\<close>
definition is_space :: "char \<Rightarrow> bool" where
  "is_space c = (c \<in> set [CHR 0x09, CHR 0x0A, CHR 0x0B, CHR 0x0C, CHR 0x0D,
                            CHR 0x1C, CHR 0x1D, CHR 0x1E, CHR 0x1F, CHR 0x20])"

text \<open>\<^verbatim>\<open>s.strip()\<close>\<close>
definition strip :: "string \<Rightarrow> string" where
  "strip s = rev (dropWhile is_space (rev (dropWhile is_space s)))"

text \<open>\<^verbatim>\<open>s.replace(",", "")\<close>\<close>
definition remove_commas :: "string \<Rightarrow> string" where
  "remove_commas s = filter (\<lambda>c. c \<noteq> CHR '','') s"

subsection \<open>Floating-point numbers\<close>

text \<open>
  A float is not-a-number, an infinity or a zero with its sign (\<open>True\<close> for negative), or
  a finite non-zero value. Finite values are exact rationals: rounding to 53 bits,
  overflow and underflow are not modelled. The special values follow IEEE 754, which is
  what the float64 columns of a pandas frame compute with.
\<close>

datatype pyfloat = FNaN | FInf bool | FZero bool | FFin rat

definition fin :: "bool \<Rightarrow> rat \<Rightarrow> pyfloat" where
  "fin neg q = (if q = 0 then FZero neg else FFin q)"

fun is_neg :: "pyfloat \<Rightarrow> bool" where
  "is_neg FNaN = False"
| "is_neg (FInf s) = s"
| "is_neg (FZero s) = s"
| "is_neg (FFin q) = (q < 0)"

text \<open>float64 multiplication\<close>
fun fmul :: "pyfloat \<Rightarrow> pyfloat \<Rightarrow> pyfloat" where
  "fmul FNaN y = FNaN"
| "fmul x FNaN = FNaN"
| "fmul (FInf s) (FZero t) = FNaN"
| "fmul (FZero s) (FInf t) = FNaN"
| "fmul (FInf s) y = FInf (s \<noteq> is_neg y)"
| "fmul x (FInf t) = FInf (is_neg x \<noteq> t)"
| "fmul (FZero s) y = FZero (s \<noteq> is_neg y)"
| "fmul x (FZero t) = FZero (is_neg x \<noteq> t)"
| "fmul (FFin p) (FFin q) = FFin (p * q)"

text \<open>float64 division as numpy computes it on arrays: a zero divisor gives an infinity
  (or not-a-number for \<open>0 / 0\<close>), it does not raise.\<close>
fun fdiv :: "pyfloat \<Rightarrow> pyfloat \<Rightarrow> pyfloat" where
  "fdiv FNaN y = FNaN"
| "fdiv x FNaN = FNaN"
| "fdiv (FInf s) (FInf t) = FNaN"
| "fdiv (FZero s) (FZero t) = FNaN"
| "fdiv (FInf s) y = FInf (s \<noteq> is_neg y)"
| "fdiv x (FInf t) = FZero (is_neg x \<noteq> t)"
| "fdiv (FZero s) y = FZero (s \<noteq> is_neg y)"
| "fdiv x (FZero t) = FInf (is_neg x \<noteq> t)"
| "fdiv (FFin p) (FFin q) = FFin (p / q)"

subsection \<open>Reading a float from text\<close>

text \<open>
  \<^verbatim>\<open>float(s)\<close> for a string follows the grammar of the language reference: surrounding
  whitespace, an optional sign, then \<^verbatim>\<open>inf\<close>, \<^verbatim>\<open>infinity\<close> or \<^verbatim>\<open>nan\<close> in any case, or a
  decimal number whose digit groups may hold single underscores, with an optional
  exponent. Anything else raises \<^verbatim>\<open>ValueError\<close>, here \<open>None\<close>.
\<close>

definition is_digit :: "char \<Rightarrow> bool" where
  "is_digit c = (c \<in> set ''0123456789'')"

definition digit_val :: "char \<Rightarrow> nat" where
  "digit_val c = length (takeWhile (\<lambda>d. d \<noteq> c) ''0123456789'')"

definition nat_of_digits :: "string \<Rightarrow> nat" where
  "nat_of_digits ds = foldl (\<lambda>n c. 10 * n + digit_val c) 0 ds"

definition cons_fst :: "'a \<Rightarrow> 'a list \<times> 'b \<Rightarrow> 'a list \<times> 'b" where
  "cons_fst x p = (x # fst p, snd p)"

text \<open>The rest of a digit group after its first digit: digits, each with at most one
  underscore before it. Returns the digits read and the text left.\<close>
fun digits_rest :: "string \<Rightarrow> string \<times> string" where
  "digits_rest (c # d # cs) =
     (if is_digit c then cons_fst c (digits_rest (d # cs))
      else if c = CHR ''_'' \<and> is_digit d then cons_fst d (digits_rest cs)
      else ([], c # d # cs))"
| "digits_rest [c] = (if is_digit c then ([c], []) else ([], [c]))"
| "digits_rest [] = ([], [])"

definition digitpart :: "string \<Rightarrow> (string \<times> string) option" where
  "digitpart s =
     (case s of
        [] \<Rightarrow> None
      | c # cs \<Rightarrow> if is_digit c then Some (cons_fst c (digits_rest cs)) else None)"

text \<open>The number before the exponent: integer digits, fraction digits, text left.\<close>
definition number_part :: "string \<Rightarrow> (string \<times> string \<times> string) option" where
  "number_part s =
     (case digitpart s of
        Some (ip, r) \<Rightarrow>
          (case r of
             c # r' \<Rightarrow>
               if c = CHR ''.'' then
                 (case digitpart r' of
                    Some (fp, r'') \<Rightarrow> Some (ip, fp, r'')
                  | None \<Rightarrow> Some (ip, [], r'))
               else Some (ip, [], r)
           | [] \<Rightarrow> Some (ip, [], []))
      | None \<Rightarrow>
          (case s of
             c # r' \<Rightarrow>
               if c = CHR ''.'' then
                 (case digitpart r' of
                    Some (fp, r'') \<Rightarrow> Some ([], fp, r'')
                  | None \<Rightarrow> None)
               else None
           | [] \<Rightarrow> None))"

text \<open>An optional sign: whether it is a minus, and the text left.\<close>
definition sign_part :: "string \<Rightarrow> bool \<times> string" where
  "sign_part s =
     (case s of
        c # cs \<Rightarrow> if c = CHR ''-'' then (True, cs) else if c = CHR ''+'' then (False, cs) else (False, s)
      | [] \<Rightarrow> (False, s))"

text \<open>The exponent and the end of the text: \<open>Some e\<close> when all of the text is read.\<close>
definition exponent_part :: "string \<Rightarrow> int option" where
  "exponent_part r =
     (case r of
        [] \<Rightarrow> Some 0
      | c # cs \<Rightarrow>
          if c = CHR ''e'' \<or> c = CHR ''E'' then
            (case sign_part cs of
               (neg, ds) \<Rightarrow>
                 (case digitpart ds of
                    Some (ep, []) \<Rightarrow> Some (if neg then - int (nat_of_digits ep) else int (nat_of_digits ep))
                  | _ \<Rightarrow> None))
          else None)"

definition scale10 :: "nat \<Rightarrow> int \<Rightarrow> rat" where
  "scale10 m e = (if 0 \<le> e then of_nat m * 10 ^ nat e else of_nat m / 10 ^ nat (- e))"

definition py_float :: "string \<Rightarrow> pyfloat option" where
  "py_float s =
     (case sign_part (strip s) of
        (neg, body) \<Rightarrow>
          if lower body = ''inf'' \<or> lower body = ''infinity'' then Some (FInf neg)
          else if lower body = ''nan'' then Some FNaN
          else
            (case number_part body of
               None \<Rightarrow> None
             | Some (ip, fp, r) \<Rightarrow>
                 (case exponent_part r of
                    None \<Rightarrow> None
                  | Some e \<Rightarrow>
                      Some (fin neg ((if neg then - 1 else 1)
                              * scale10 (nat_of_digits (ip @ fp)) (e - int (length fp)))))))"

section \<open>Tables\<close>

text \<open>
  A cell of a loaded table is null (pandas' NaN), text, or a number. A table is its
  header and its rows. The pandas readers give distinct column labels (a repeated header
  is renamed) and pad a short row with nulls, so a cell is looked up by its label and a
  label without a cell reads as null. Labels are modelled by their text.
\<close>

datatype cell = Null | Text string | Num pyfloat

record raw_table =
  columns :: "string list"
  rows :: "cell list list"

definition cell_at :: "string list \<Rightarrow> cell list \<Rightarrow> string \<Rightarrow> cell" where
  "cell_at cols r c = (case map_of (zip cols r) c of Some v \<Rightarrow> v | None \<Rightarrow> Null)"

text \<open>\<^verbatim>\<open>pd.isna(raw)\<close>\<close>
fun pd_isna :: "cell \<Rightarrow> bool" where
  "pd_isna Null = True"
| "pd_isna (Num FNaN) = True"
| "pd_isna (Num x) = False"
| "pd_isna (Text s) = False"

text \<open>The key both pipelines join on.\<close>
record keyed =
  year :: int
  geo_name :: string

section \<open>The ACS table extractor (\<^verbatim>\<open>load_acs.py\<close>)\<close>

definition label_col :: string where
  "label_col = ''Label (Grouping)''"

text \<open>
  \<^verbatim>\<open>df[label_col].astype(str).str.contains("Median", case=False, na=False)\<close>, for one
  label. \<^verbatim>\<open>astype(str)\<close> turns a null into the text \<^verbatim>\<open>nan\<close> and a number into its decimal
  text (digits, sign, point, exponent, \<^verbatim>\<open>inf\<close>); neither holds the word.
\<close>
fun label_matches :: "cell \<Rightarrow> bool" where
  "label_matches (Text s) = str_contains (lower s) (lower ''Median'')"
| "label_matches Null = False"
| "label_matches (Num x) = False"

text \<open>Lines 81 to 86: the first row whose label matches, else the first row of the table.
  \<^verbatim>\<open>df.iloc[[0]]\<close> raises \<^verbatim>\<open>IndexError\<close> on a table with no rows.\<close>
definition select_row :: "raw_table \<Rightarrow> py_error + cell list" where
  "select_row df =
     (case filter (\<lambda>r. label_matches (cell_at (columns df) r label_col)) (rows df) of
        m # ms \<Rightarrow> Inr m
      | [] \<Rightarrow> (case rows df of [] \<Rightarrow> Inl IndexError | r # rs \<Rightarrow> Inr r))"

text \<open>Lines 100 to 108: the value of one cell. For a number, \<^verbatim>\<open>float(str(raw))\<close> reads back
  the number that \<^verbatim>\<open>str\<close> printed. \<^verbatim>\<open>float\<close> raises \<^verbatim>\<open>ValueError\<close> on text it cannot
  read, and nothing catches it.\<close>
definition cell_value :: "cell \<Rightarrow> py_error + pyfloat option" where
  "cell_value raw =
     (if pd_isna raw then Inr None
      else
        (case raw of
           Text s \<Rightarrow>
             (let cleaned = strip (remove_commas s) in
              if cleaned = [] then Inr None
              else (case py_float cleaned of None \<Rightarrow> Inl ValueError | Some v \<Rightarrow> Inr (Some v)))
         | Num x \<Rightarrow> Inr (Some x)
         | Null \<Rightarrow> Inr None))"

record metric_record = keyed +
  metric_value :: "pyfloat option"

text \<open>Lines 96 to 109: one record per estimate column, in order; the first cell that
  fails to parse ends the loop with its error.\<close>
fun build_records :: "int \<Rightarrow> string list \<Rightarrow> cell list \<Rightarrow> string list \<Rightarrow> py_error + metric_record list" where
  "build_records yr cols median_row [] = Inr []"
| "build_records yr cols median_row (col # rest) =
     (case cell_value (cell_at cols median_row col) of
        Inl e \<Rightarrow> Inl e
      | Inr v \<Rightarrow>
          (case build_records yr cols median_row rest of
             Inl e \<Rightarrow> Inl e
           | Inr recs \<Rightarrow>
               Inr (\<lparr>year = yr, geo_name = split_first ''!!'' col, metric_value = v\<rparr> # recs)))"

definition estimate_cols :: "string list \<Rightarrow> string list" where
  "estimate_cols cols = filter (\<lambda>c. endswith c ''!!Estimate'') cols"

text \<open>Lines 70 to 112 of \<^verbatim>\<open>_load_single_table\<close>, on the table that lines 67 and 68 loaded.\<close>
definition extract_table :: "int \<Rightarrow> raw_table \<Rightarrow> py_error + metric_record list" where
  "extract_table yr df =
     (if label_col \<notin> set (columns df) then Inl KeyError
      else
        (case select_row df of
           Inl e \<Rightarrow> Inl e
         | Inr median_row \<Rightarrow>
             if estimate_cols (columns df) = [] then Inl KeyError
             else build_records yr (columns df) median_row (estimate_cols (columns df))))"

text \<open>\<^verbatim>\<open>_load_single_table\<close>. Finding the file and reading it (lines 67 and 68) are the file
  system's answer \<open>read_table year table_id\<close>: an error, or the table read.\<close>
definition load_single_table :: "(int \<Rightarrow> string \<Rightarrow> py_error + raw_table) \<Rightarrow> int \<Rightarrow> string \<Rightarrow> py_error + metric_record list" where
  "load_single_table read_table yr table_id =
     (case read_table yr table_id of Inl e \<Rightarrow> Inl e | Inr df \<Rightarrow> extract_table yr df)"

section \<open>The reconciler (\<^verbatim>\<open>load_acs_affordability\<close>)\<close>

text \<open>\<^verbatim>\<open>config.py\<close>\<close>
definition YEARS :: "int list" where
  "YEARS = [2013..2023]"

definition TARGET_GEOS :: "(string \<times> string) list" where
  "TARGET_GEOS =
     [(''fergus_falls_city'', ''Fergus Falls city, Minnesota''),
      (''otter_tail_county'', ''Otter Tail County, Minnesota''),
      (''minneapolis_city'', ''Minneapolis city, Minnesota''),
      (''hennepin_county'', ''Hennepin County, Minnesota'')]"

text \<open>
  \<^verbatim>\<open>DataFrame.from_records\<close> stores a metric column as float64, where the \<^verbatim>\<open>None\<close> of a
  record is NaN. The model takes every metric column as float64; pandas keeps a column
  as Python objects only when a whole table has no value at all.
\<close>
definition nan_of :: "pyfloat option \<Rightarrow> pyfloat" where
  "nan_of v = (case v of None \<Rightarrow> FNaN | Some x \<Rightarrow> x)"

record merged_row = keyed +
  B19013 :: pyfloat
  B25077 :: pyfloat
  B25064 :: pyfloat

text \<open>\<^verbatim>\<open>left.merge(right, on=["geo_name", "year"], how="inner")\<close>: every pair of a left and a
  right row with the same key, in the order of the left rows.\<close>
definition merge_inner :: "('a \<Rightarrow> string \<times> int) \<Rightarrow> ('b \<Rightarrow> string \<times> int) \<Rightarrow> 'a list \<Rightarrow> 'b list \<Rightarrow> ('a \<times> 'b) list" where
  "merge_inner kl kr left right =
     concat (map (\<lambda>l. map (\<lambda>r. (l, r)) (filter (\<lambda>r. kr r = kl l) right)) left)"

definition key_of :: "'a keyed_scheme \<Rightarrow> string \<times> int" where
  "key_of r = (geo_name r, year r)"

text \<open>Lines 141 and 142: the three tables of one year, merged.\<close>
definition merge_year :: "metric_record list \<Rightarrow> metric_record list \<Rightarrow> metric_record list \<Rightarrow> merged_row list" where
  "merge_year income home_value rent =
     map (\<lambda>((i, h), r).
            \<lparr>year = year i, geo_name = geo_name i,
             B19013 = nan_of (metric_value i), B25077 = nan_of (metric_value h),
             B25064 = nan_of (metric_value r)\<rparr>)
       (merge_inner (\<lambda>(i, h). key_of i) key_of (merge_inner key_of key_of income home_value) rent)"

text \<open>Lines 136 to 144: the loop over the years; the first table that fails to load ends
  it with its error.\<close>
fun load_years :: "(int \<Rightarrow> string \<Rightarrow> py_error + raw_table) \<Rightarrow> int list \<Rightarrow> py_error + merged_row list list" where
  "load_years read_table [] = Inr []"
| "load_years read_table (y # ys) =
     (case load_single_table read_table y ''B19013'' of
        Inl e \<Rightarrow> Inl e
      | Inr income \<Rightarrow>
          (case load_single_table read_table y ''B25077'' of
             Inl e \<Rightarrow> Inl e
           | Inr home_value \<Rightarrow>
               (case load_single_table read_table y ''B25064'' of
                  Inl e \<Rightarrow> Inl e
                | Inr rent \<Rightarrow>
                    (case load_years read_table ys of
                       Inl e \<Rightarrow> Inl e
                     | Inr frames \<Rightarrow> Inr (merge_year income home_value rent # frames)))))"

record affordability = keyed +
  median_household_income :: pyfloat
  median_home_value :: pyfloat
  median_gross_rent :: pyfloat
  price_to_income :: pyfloat
  rent_to_income :: pyfloat

text \<open>Lines 153 to 168 on one row: the renamed columns and the two ratios.\<close>
definition add_ratios :: "merged_row \<Rightarrow> affordability" where
  "add_ratios m =
     \<lparr>year = year m, geo_name = geo_name m,
      median_household_income = B19013 m,
      median_home_value = B25077 m,
      median_gross_rent = B25064 m,
      price_to_income = fdiv (B25077 m) (B19013 m),
      rent_to_income = fdiv (fmul (B25064 m) (FFin 12)) (B19013 m)\<rparr>"

definition target_names :: "string set" where
  "target_names = set (map snd TARGET_GEOS)"

text \<open>\<^verbatim>\<open>load_acs_affordability\<close>. \<^verbatim>\<open>pd.concat\<close> of an empty list of frames raises
  \<^verbatim>\<open>ValueError\<close>.\<close>
definition load_acs_affordability :: "(int \<Rightarrow> string \<Rightarrow> py_error + raw_table) \<Rightarrow> int list option \<Rightarrow> py_error + affordability list" where
  "load_acs_affordability read_table years =
     (case load_years read_table (case years of None \<Rightarrow> YEARS | Some ys \<Rightarrow> ys) of
        Inl e \<Rightarrow> Inl e
      | Inr frames \<Rightarrow>
          if frames = [] then Inl ValueError
          else Inr (map add_ratios (filter (\<lambda>r. geo_name r \<in> target_names) (concat frames))))"

section \<open>The HUD benchmark extractor (\<^verbatim>\<open>load_hud.py\<close>)\<close>

text \<open>The paths are relative to \<^verbatim>\<open>PROJECT_ROOT\<close>.\<close>
definition HUD_FMR_FILES :: "(int \<times> string) list" where
  "HUD_FMR_FILES =
     [(2013, ''2013/FY2013_4050_Final.xls''),
      (2014, ''2014/FY2014_4050_RevFinal.xls''),
      (2015, ''2015/FY2015_4050_RevFinal (1).xls''),
      (2016, ''2016/FY2016F-4050-RevFinal4.xlsx''),
      (2017, ''2017/FY2017-4050-County-Level_Data.xlsx''),
      (2018, ''2018/FY18_4050_FMRs_rev (1).xlsx''),
      (2019, ''2019/FY2019_4050_FMRs_rev2.xlsx''),
      (2020, ''2020/FY20_4050_FMRs_rev.xlsx''),
      (2021, ''2021/FY21_4050_FMRs_rev.xlsx''),
      (2022, ''2022/FY22_FMRs_revised.xlsx''),
      (2023, ''2023/FY23_FMRs_revised.xlsx'')]"

text \<open>What the file system holds at a path: nothing, a file \<^verbatim>\<open>pd.read_excel\<close> raises on,
  or a workbook and the table read from it.\<close>
datatype file_state = Missing | Unreadable | Workbook raw_table

text \<open>The lines the loader prints.\<close>
datatype log_event =
    NoFileConfigured int
  | FileNotFound int string
  | ReadFailed int string
  | NoGeoColumn string
  | NoFmrColumn string

definition is_geo_candidate :: "string \<Rightarrow> bool" where
  "is_geo_candidate c = (str_contains (lower c) ''name'' \<or> str_contains (lower c) ''area'')"

definition fmr_keywords :: "string list" where
  "fmr_keywords = [''2br'', ''2 br'', ''fmr2'', ''fmr_2'']"

definition is_fmr_candidate :: "string \<Rightarrow> bool" where
  "is_fmr_candidate c = list_ex (\<lambda>k. str_contains (lower c) k) fmr_keywords"

text \<open>Lines 85 to 104: the geography column and the value column, or the line printed
  when the year is skipped.\<close>
definition select_columns :: "string \<Rightarrow> string list \<Rightarrow> log_event + string \<times> string" where
  "select_columns path cols =
     (if ''areaname'' \<in> set cols \<and> ''fmr_2'' \<in> set cols then Inr (''areaname'', ''fmr_2'')
      else
        (case filter is_geo_candidate cols of
           [] \<Rightarrow> Inl (NoGeoColumn path)
         | geo_col # gs \<Rightarrow>
             (case filter is_fmr_candidate cols of
                [] \<Rightarrow> Inl (NoFmrColumn path)
              | fmr_col # fs \<Rightarrow> Inr (geo_col, fmr_col))))"

text \<open>
  A row of \<^verbatim>\<open>sub\<close>, as \<^verbatim>\<open>iterrows\<close> yields it: the cells under their labels. The heuristic
  can choose \<^verbatim>\<open>countyname\<close> itself as the geography column, or one column for both roles,
  so a label can stand twice; looking such a label up gives a Series of both cells.
  The label \<^verbatim>\<open>year\<close> is none of the three selected, so the year is kept beside the cells.
\<close>
datatype pyval = Scalar cell | Series "cell list"

definition row_lookup :: "(string \<times> cell) list \<Rightarrow> string \<Rightarrow> pyval option" where
  "row_lookup row k =
     (case map snd (filter (\<lambda>p. fst p = k) row) of
        [] \<Rightarrow> None
      | [v] \<Rightarrow> Some (Scalar v)
      | v # w # vs \<Rightarrow> Some (Series (v # w # vs)))"

text \<open>Lines 106 and 107: the row of \<^verbatim>\<open>df[[geo_col, fmr_col, "countyname"]]\<close>, then every
  label equal to \<^verbatim>\<open>fmr_col\<close> renamed to \<^verbatim>\<open>hud_fmr_2br\<close>.\<close>
definition sub_row :: "string list \<Rightarrow> string \<Rightarrow> string \<Rightarrow> cell list \<Rightarrow> (string \<times> cell) list" where
  "sub_row cols geo_col fmr_col r =
     map (\<lambda>c. (if c = fmr_col then ''hud_fmr_2br'' else c, cell_at cols r c))
       [geo_col, fmr_col, ''countyname'']"

text \<open>\<^verbatim>\<open>str(v)\<close>: text is itself and a null prints as \<^verbatim>\<open>nan\<close>; how a number and a Series
  print is left to \<open>fmt\<close>.\<close>
definition py_str :: "(pyval \<Rightarrow> string) \<Rightarrow> pyval \<Rightarrow> string" where
  "py_str fmt v = (case v of Scalar (Text s) \<Rightarrow> s | Scalar Null \<Rightarrow> ''nan'' | _ \<Rightarrow> fmt v)"

record hud_record = keyed +
  hud_fmr_2br :: pyval

definition otter_tail_geos :: "string list" where
  "otter_tail_geos = [''Otter Tail County, Minnesota'', ''Fergus Falls city, Minnesota'']"

definition hennepin_geos :: "string list" where
  "hennepin_geos = [''Hennepin County, Minnesota'', ''Minneapolis city, Minnesota'']"

text \<open>\<^verbatim>\<open>_expand_to_acs_geos\<close> (lines 113 to 145), for a row of the given year.\<close>
definition expand_to_acs_geos :: "(pyval \<Rightarrow> string) \<Rightarrow> int \<Rightarrow> (string \<times> cell) list \<Rightarrow> py_error + hud_record list" where
  "expand_to_acs_geos fmt yr row =
     (let countyname =
            py_str fmt (case row_lookup row ''countyname'' of None \<Rightarrow> Scalar (Text []) | Some v \<Rightarrow> v)
      in
        (case row_lookup row ''hud_fmr_2br'' of
           None \<Rightarrow> Inl KeyError
         | Some fmr \<Rightarrow>
             Inr ((if str_contains (lower countyname) ''otter tail''
                   then map (\<lambda>geo. \<lparr>year = yr, geo_name = geo, hud_fmr_2br = fmr\<rparr>) otter_tail_geos
                   else [])
                  @ (if str_contains (lower countyname) ''hennepin''
                     then map (\<lambda>geo. \<lparr>year = yr, geo_name = geo, hud_fmr_2br = fmr\<rparr>) hennepin_geos
                     else []))))"

text \<open>Lines 147 to 149: the records of all rows, in order.\<close>
fun expand_rows :: "(pyval \<Rightarrow> string) \<Rightarrow> int \<Rightarrow> (string \<times> cell) list list \<Rightarrow> py_error + hud_record list" where
  "expand_rows fmt yr [] = Inr []"
| "expand_rows fmt yr (row # others) =
     (case expand_to_acs_geos fmt yr row of
        Inl e \<Rightarrow> Inl e
      | Inr recs \<Rightarrow>
          (case expand_rows fmt yr others of Inl e \<Rightarrow> Inl e | Inr rest \<Rightarrow> Inr (recs @ rest)))"

text \<open>
  The body of the loop of \<^verbatim>\<open>load_hud_fmr\<close> (lines 66 to 155) for one year: the lines it
  prints, and either the error it raises or the records it found (none when the year is
  skipped). \<^verbatim>\<open>df[[geo_col, fmr_col, "countyname"]]\<close> raises \<^verbatim>\<open>KeyError\<close> when the table has
  no \<^verbatim>\<open>countyname\<close> column.
\<close>
definition hud_year :: "(pyval \<Rightarrow> string) \<Rightarrow> (string \<Rightarrow> file_state) \<Rightarrow> int \<Rightarrow> log_event list \<times> (py_error + hud_record list)" where
  "hud_year fmt fs yr =
     (case map_of HUD_FMR_FILES yr of
        None \<Rightarrow> ([NoFileConfigured yr], Inr [])
      | Some path \<Rightarrow>
          (case fs path of
             Missing \<Rightarrow> ([FileNotFound yr path], Inr [])
           | Unreadable \<Rightarrow> ([ReadFailed yr path], Inr [])
           | Workbook df \<Rightarrow>
               (case select_columns path (columns df) of
                  Inl ev \<Rightarrow> ([ev], Inr [])
                | Inr (geo_col, fmr_col) \<Rightarrow>
                    if ''countyname'' \<notin> set (columns df) then ([], Inl KeyError)
                    else ([], expand_rows fmt yr (map (sub_row (columns df) geo_col fmr_col) (rows df))))))"

text \<open>The loop over the years (line 65): the lines printed so far and the frames
  appended so far; a year with no record appends no frame.\<close>
fun hud_loop :: "(pyval \<Rightarrow> string) \<Rightarrow> (string \<Rightarrow> file_state) \<Rightarrow> int list \<Rightarrow> log_event list \<Rightarrow> hud_record list list \<Rightarrow> log_event list \<times> (py_error + hud_record list list)" where
  "hud_loop fmt fs [] lg frames = (lg, Inr frames)"
| "hud_loop fmt fs (y # ys) lg frames =
     (case hud_year fmt fs y of
        (out, Inl e) \<Rightarrow> (lg @ out, Inl e)
      | (out, Inr recs) \<Rightarrow>
          hud_loop fmt fs ys (lg @ out) (if recs = [] then frames else frames @ [recs]))"

record hud_frame =
  frame_columns :: "string list"
  frame_rows :: "hud_record list"

text \<open>\<^verbatim>\<open>load_hud_fmr\<close>: the lines printed, and the error raised or the frame returned.\<close>
definition load_hud_fmr :: "(pyval \<Rightarrow> string) \<Rightarrow> (string \<Rightarrow> file_state) \<Rightarrow> int list option \<Rightarrow> log_event list \<times> (py_error + hud_frame)" where
  "load_hud_fmr fmt fs years =
     (case hud_loop fmt fs (case years of None \<Rightarrow> sort (map fst HUD_FMR_FILES) | Some ys \<Rightarrow> ys) [] [] of
        (lg, Inl e) \<Rightarrow> (lg, Inl e)
      | (lg, Inr frames) \<Rightarrow>
          if frames = []
          then (lg, Inr \<lparr>frame_columns = [''year'', ''geo_name'', ''hud_fmr_2br''], frame_rows = []\<rparr>)
          else (lg, Inr \<lparr>frame_columns = [''year'', ''hud_fmr_2br'', ''geo_name''],
                         frame_rows = concat frames\<rparr>))"

section \<open>Example inputs\<close>

text \<open>An income table whose only estimate is the dash the survey prints for a median it
  could not compute.\<close>
definition acs_dash_table :: raw_table where
  "acs_dash_table =
     \<lparr>columns = [''Label (Grouping)'',
                 ''Hennepin County, Minnesota!!Estimate'',
                 ''Hennepin County, Minnesota!!Margin of Error''],
      rows = [[Text ''Median household income in the past 12 months'', Text ''-'', Text ''**'']]\<rparr>"

text \<open>A reconciled row whose income is zero.\<close>
definition zero_income_row :: merged_row where
  "zero_income_row =
     \<lparr>year = 2020, geo_name = ''Hennepin County, Minnesota'',
      B19013 = FZero False, B25077 = FFin 200000, B25064 = FFin 1000\<rparr>"

text \<open>An income table with a heading row, the median row and two geographies.\<close>
definition acs_income_table :: raw_table where
  "acs_income_table =
     \<lparr>columns = [''Label (Grouping)'',
                 ''Hennepin County, Minnesota!!Estimate'',
                 ''Hennepin County, Minnesota!!Margin of Error'',
                 ''Ramsey County, Minnesota!!Estimate'',
                 ''Ramsey County, Minnesota!!Margin of Error''],
      rows = [[Text ''Total:'', Null, Null, Null, Null],
              [Text ''MEDIAN household income'', Text ''96,339'', Text ''+/-1,200'', Null, Text ''**'']]\<rparr>"

text \<open>A table with the label column and no estimate column.\<close>
definition acs_no_estimate_table :: raw_table where
  "acs_no_estimate_table =
     \<lparr>columns = [''Label (Grouping)'', ''Hennepin County, Minnesota!!Margin of Error''],
      rows = [[Text ''Median gross rent'', Text ''+/-15'']]\<rparr>"

text \<open>How numbers and Series print does not matter to the examples: a formatter that
  prints nothing.\<close>
definition fmt_blank :: "pyval \<Rightarrow> string" where
  "fmt_blank v = []"

text \<open>A workbook of the old layout: no \<^verbatim>\<open>areaname\<close> and \<^verbatim>\<open>fmr_2\<close> pair, so the heuristic
  picks \<^verbatim>\<open>countyname\<close> as the geography column and \<^verbatim>\<open>fmr2\<close> as the value column.\<close>
definition hud_old_table :: raw_table where
  "hud_old_table =
     \<lparr>columns = [''fips2010'', ''fmr2'', ''countyname'', ''Areaname''],
      rows = [[Num (FFin 2711199999), Num (FFin 604), Text ''Otter Tail County'', Text ''Otter Tail County, MN''],
              [Num (FFin 2705399999), Num (FFin 920), Text ''HENNEPIN COUNTY'', Text ''Minneapolis-St. Paul-Bloomington, MN-WI MSA''],
              [Num (FFin 2712399999), Num (FFin 920), Text ''Ramsey County'', Text ''Minneapolis-St. Paul-Bloomington, MN-WI MSA'']]\<rparr>"

text \<open>A workbook of the new layout.\<close>
definition hud_new_table :: raw_table where
  "hud_new_table =
     \<lparr>columns = [''areaname'', ''countyname'', ''fmr_2''],
      rows = [[Text ''Otter Tail County, MN'', Text ''Otter Tail County'', Num (FFin 700)],
              [Text ''Cook County, MN'', Text ''Cook County'', Num (FFin 800)]]\<rparr>"

text \<open>A workbook with a name column and no column that looks like a two-bedroom rent.\<close>
definition hud_no_fmr_table :: raw_table where
  "hud_no_fmr_table =
     \<lparr>columns = [''countyname'', ''rent_two_bedroom''],
      rows = [[Text ''Hennepin County'', Num (FFin 950)]]\<rparr>"

text \<open>A workbook with the two known columns and no \<^verbatim>\<open>countyname\<close> column.\<close>
definition hud_no_county_table :: raw_table where
  "hud_no_county_table =
     \<lparr>columns = [''areaname'', ''fmr_2''],
      rows = [[Text ''Hennepin County, MN'', Num (FFin 950)]]\<rparr>"

text \<open>A file system: the workbooks of 2013, 2016, 2017 and 2020 can be read, the one of
  2014 cannot, and the other files are not there.\<close>
definition example_fs :: "string \<Rightarrow> file_state" where
  "example_fs path =
     (if path = ''2013/FY2013_4050_Final.xls'' then Workbook hud_old_table
      else if path = ''2014/FY2014_4050_RevFinal.xls'' then Unreadable
      else if path = ''2016/FY2016F-4050-RevFinal4.xlsx'' then Workbook hud_no_fmr_table
      else if path = ''2017/FY2017-4050-County-Level_Data.xlsx'' then Workbook hud_no_county_table
      else if path = ''2020/FY20_4050_FMRs_rev.xlsx'' then Workbook hud_new_table
      else Missing)"

text \<open>The three tables of one year, for two geographies of which only one is on the
  allow-list.\<close>
definition acs_income_50k_table :: raw_table where
  "acs_income_50k_table =
     \<lparr>columns = [''Label (Grouping)'', ''Hennepin County, Minnesota!!Estimate'',
                 ''Ramsey County, Minnesota!!Estimate''],
      rows = [[Text ''Median household income'', Text ''50,000'', Text ''60,000'']]\<rparr>"

definition acs_home_table :: raw_table where
  "acs_home_table =
     \<lparr>columns = [''Label (Grouping)'', ''Hennepin County, Minnesota!!Estimate'',
                 ''Ramsey County, Minnesota!!Estimate''],
      rows = [[Text ''Median value (dollars)'', Text ''200,000'', Text ''180,000'']]\<rparr>"

definition acs_rent_table :: raw_table where
  "acs_rent_table =
     \<lparr>columns = [''Label (Grouping)'', ''Hennepin County, Minnesota!!Estimate'',
                 ''Ramsey County, Minnesota!!Estimate''],
      rows = [[Text ''Median gross rent'', Text ''1,000'', Text ''900'']]\<rparr>"

definition example_read_table :: "int \<Rightarrow> string \<Rightarrow> py_error + raw_table" where
  "example_read_table yr table_id =
     (if yr = 2020 \<and> table_id = ''B19013'' then Inr acs_income_50k_table
      else if yr = 2020 \<and> table_id = ''B25077'' then Inr acs_home_table
      else if yr = 2020 \<and> table_id = ''B25064'' then Inr acs_rent_table
      else Inl FileNotFoundError)"

text \<open>A reconciled row with the incomes and prices of the specification's example, and
  one whose income is absent.\<close>
definition sample_row :: merged_row where
  "sample_row =
     \<lparr>year = 2020, geo_name = ''Hennepin County, Minnesota'',
      B19013 = FFin 50000, B25077 = FFin 200000, B25064 = FFin 1000\<rparr>"

definition absent_income_row :: merged_row where
  "absent_income_row =
     \<lparr>year = 2020, geo_name = ''Hennepin County, Minnesota'',
      B19013 = FNaN, B25077 = FFin 200000, B25064 = FFin 1000\<rparr>"

text \<open>The records of three tables of one year: the rent table lacks the second
  geography.\<close>
definition income_records :: "metric_record list" where
  "income_records =
     [\<lparr>year = 2020, geo_name = ''Hennepin County, Minnesota'', metric_value = Some (FFin 50000)\<rparr>,
      \<lparr>year = 2020, geo_name = ''Otter Tail County, Minnesota'', metric_value = Some (FFin 40000)\<rparr>]"

definition home_value_records :: "metric_record list" where
  "home_value_records =
     [\<lparr>year = 2020, geo_name = ''Hennepin County, Minnesota'', metric_value = Some (FFin 200000)\<rparr>,
      \<lparr>year = 2020, geo_name = ''Otter Tail County, Minnesota'', metric_value = Some (FFin 150000)\<rparr>]"

definition rent_records :: "metric_record list" where
  "rent_records =
     [\<lparr>year = 2020, geo_name = ''Hennepin County, Minnesota'', metric_value = Some (FFin 1000)\<rparr>]"

section \<open>Properties\<close>

lemmas text_defs = strip_def is_space_def remove_commas_def lower_def lower_char_def
  upper_letters_def lower_letters_def endswith_def

lemmas float_defs = py_float_def sign_part_def number_part_def digitpart_def is_digit_def
  cons_fst_def exponent_part_def scale10_def nat_of_digits_def digit_val_def fin_def

subsection \<open>Value normalization\<close>

lemma cell_value_error: "cell_value c = Inl e \<Longrightarrow> e = ValueError"
  by (cases c) (auto simp: cell_value_def Let_def split: if_splits option.splits)

lemma build_records_abort:
  "c \<in> set ecols \<Longrightarrow> cell_value (cell_at cols r c) = Inl ValueError
     \<Longrightarrow> build_records yr cols r ecols = Inl ValueError"
proof (induction ecols)
  case Nil
  then show ?case by simp
next
  case (Cons a ecols)
  show ?case
  proof (cases "cell_value (cell_at cols r a)")
    case (Inl e)
    then show ?thesis using cell_value_error [OF Inl] by simp
  next
    case (Inr v)
    with Cons have "build_records yr cols r ecols = Inl ValueError" by auto
    with Inr show ?thesis by simp
  qed
qed

text \<open>
  C3, as the code has it. A null cell gives an absent value. A text cell is read after
  its commas and the whitespace around it are removed: nothing left gives an absent value
  (not zero), text that \<^verbatim>\<open>float\<close> reads gives that number, so \<^verbatim>\<open>"96,339"\<close> gives 96339.0.
  Text that \<^verbatim>\<open>float\<close> cannot read raises \<^verbatim>\<open>ValueError\<close>, and the error of one cell ends
  the whole extraction: it is not turned into an absent value.
\<close>
theorem cell_value_normalization:
  "cell_value Null = Inr None
   \<and> (\<forall>s. strip (remove_commas s) = [] \<longrightarrow> cell_value (Text s) = Inr None)
   \<and> (\<forall>s v. strip (remove_commas s) \<noteq> [] \<longrightarrow> py_float (strip (remove_commas s)) = Some v
          \<longrightarrow> cell_value (Text s) = Inr (Some v))
   \<and> (\<forall>s. strip (remove_commas s) \<noteq> [] \<longrightarrow> py_float (strip (remove_commas s)) = None
          \<longrightarrow> cell_value (Text s) = Inl ValueError)
   \<and> (\<forall>yr cols r ecols c. c \<in> set ecols \<longrightarrow> cell_value (cell_at cols r c) = Inl ValueError
          \<longrightarrow> build_records yr cols r ecols = Inl ValueError)
   \<and> cell_value (Text ''96,339'') = Inr (Some (FFin 96339))"
proof -
  have ex: "cell_value (Text ''96,339'') = Inr (Some (FFin 96339))"
    by (simp add: cell_value_def text_defs float_defs)
  show ?thesis
    using ex build_records_abort by (simp add: cell_value_def Let_def)
qed

theorem cell_value_normalization_witness:
  "cell_value (Text '' , '') = Inr None
   \<and> cell_value (Text '' 1,250.5 '') = Inr (Some (FFin (2501 / 2)))
   \<and> cell_value (Text ''(X)'') = Inl ValueError
   \<and> build_records 2020 [''A!!Estimate'', ''B!!Estimate''] [Text ''7'', Text ''(X)'']
        [''A!!Estimate'', ''B!!Estimate''] = Inl ValueError"
proof -
  have blank: "strip (remove_commas '' , '') = []"
    by (simp add: text_defs)
  have num: "strip (remove_commas '' 1,250.5 '') \<noteq> []"
    "py_float (strip (remove_commas '' 1,250.5 '')) = Some (FFin (2501 / 2))"
    by (simp_all add: text_defs float_defs)
  have bad: "strip (remove_commas ''(X)'') \<noteq> []" "py_float (strip (remove_commas ''(X)'')) = None"
    by (simp_all add: text_defs float_defs)
  have a: "cell_value (Text '' , '') = Inr None"
    using cell_value_normalization blank by blast
  have b: "cell_value (Text '' 1,250.5 '') = Inr (Some (FFin (2501 / 2)))"
    using cell_value_normalization num by blast
  have c: "cell_value (Text ''(X)'') = Inl ValueError"
    using cell_value_normalization bad by blast
  have cell: "cell_at [''A!!Estimate'', ''B!!Estimate''] [Text ''7'', Text ''(X)''] ''B!!Estimate''
                = Text ''(X)''"
    by (simp add: cell_at_def)
  have d: "build_records 2020 [''A!!Estimate'', ''B!!Estimate''] [Text ''7'', Text ''(X)'']
             [''A!!Estimate'', ''B!!Estimate''] = Inl ValueError"
  proof -
    have m: "''B!!Estimate'' \<in> set [''A!!Estimate'', ''B!!Estimate'']" by simp
    have e: "cell_value (cell_at [''A!!Estimate'', ''B!!Estimate''] [Text ''7'', Text ''(X)''] ''B!!Estimate'') = Inl ValueError"
      using c cell by simp
    from cell_value_normalization m e show ?thesis by blast
  qed
  show ?thesis using a b c d by simp
qed

text \<open>The dash of the survey is text \<^verbatim>\<open>float\<close> cannot read: its cell raises, and so does the
  extraction of the table that holds it.\<close>
theorem cell_value_dash_counterexample:
  "py_float (strip (remove_commas ''-'')) = None
   \<and> cell_value (Text ''-'') = Inl ValueError
   \<and> cell_value (Text ''-'') \<noteq> Inr None
   \<and> build_records 2020 (columns acs_dash_table) (hd (rows acs_dash_table))
        (estimate_cols (columns acs_dash_table)) = Inl ValueError"
  by (simp add: cell_value_def text_defs float_defs acs_dash_table_def estimate_cols_def
      cell_at_def)

subsection \<open>The ratios\<close>

text \<open>
  C1 at an income of zero. The comment of the code promises NaN for a division by zero;
  the float64 division gives an infinity instead: with an income of 0.0, a home value of
  200000.0 and a rent of 1000.0, both ratios are \<open>+inf\<close>. The income 0.0 is what the
  extractor reads from the cell \<^verbatim>\<open>"0"\<close>.
\<close>
theorem ratios_zero_income_infinite:
  "price_to_income (add_ratios zero_income_row) = FInf False
   \<and> rent_to_income (add_ratios zero_income_row) = FInf False
   \<and> median_household_income (add_ratios zero_income_row) = FZero False
   \<and> cell_value (Text ''0'') = Inr (Some (FZero False))"
  by (simp add: add_ratios_def zero_income_row_def cell_value_def text_defs float_defs)

subsection \<open>Row selection\<close>

lemma build_records_error: "build_records yr cols r ecols = Inl e \<Longrightarrow> e = ValueError"
proof (induction ecols arbitrary: e)
  case Nil
  then show ?case by simp
next
  case (Cons a ecols)
  then show ?case
    by (auto split: sum.splits dest: cell_value_error)
qed

text \<open>
  C8. In a table that has the label column and at least one row, a row is always selected
  and no \<^verbatim>\<open>IndexError\<close> is raised: the selected row is the first one whose label holds
  \<^verbatim>\<open>median\<close> in any case, and the first row of the table when no label does. The
  extraction then goes on with that row.
\<close>
theorem select_row_total:
  assumes "label_col \<in> set (columns df)" and "rows df \<noteq> []"
  shows "\<exists>r. select_row df = Inr r \<and> r \<in> set (rows df)
           \<and> ((\<exists>pre post. rows df = pre @ r # post
                   \<and> label_matches (cell_at (columns df) r label_col)
                   \<and> (\<forall>p \<in> set pre. \<not> label_matches (cell_at (columns df) p label_col)))
                \<or> ((\<forall>p \<in> set (rows df). \<not> label_matches (cell_at (columns df) p label_col))
                     \<and> r = hd (rows df)))
           \<and> (\<forall>s. label_matches (Text s) = str_contains (lower s) ''median'')
           \<and> extract_table yr df \<noteq> Inl IndexError
           \<and> extract_table yr df =
               (if estimate_cols (columns df) = [] then Inl KeyError
                else build_records yr (columns df) r (estimate_cols (columns df)))"
proof -
  let ?P = "\<lambda>r. label_matches (cell_at (columns df) r label_col)"
  have low: "\<forall>s. label_matches (Text s) = str_contains (lower s) ''median''"
    by (simp add: lower_def lower_char_def upper_letters_def lower_letters_def)
  show ?thesis
  proof (cases "filter ?P (rows df)")
    case Nil
    from assms(2) obtain r rs where rs: "rows df = r # rs" by (cases "rows df") auto
    have sel: "select_row df = Inr r" using Nil rs by (simp add: select_row_def)
    have none: "\<forall>p \<in> set (rows df). \<not> ?P p" using Nil by (simp add: filter_empty_conv)
    have ext: "extract_table yr df =
               (if estimate_cols (columns df) = [] then Inl KeyError
                else build_records yr (columns df) r (estimate_cols (columns df)))"
      using sel assms(1) by (simp add: extract_table_def)
    have noidx: "extract_table yr df \<noteq> Inl IndexError"
      using ext build_records_error [of yr "columns df" r "estimate_cols (columns df)" IndexError]
      by (auto split: if_splits)
    show ?thesis using sel none rs low ext noidx by auto
  next
    case (Cons m ms)
    then obtain pre post where sp: "rows df = pre @ m # post" "\<forall>p \<in> set pre. \<not> ?P p" "?P m"
      unfolding filter_eq_Cons_iff by blast
    have sel: "select_row df = Inr m" using Cons by (simp add: select_row_def)
    have ext: "extract_table yr df =
               (if estimate_cols (columns df) = [] then Inl KeyError
                else build_records yr (columns df) m (estimate_cols (columns df)))"
      using sel assms(1) by (simp add: extract_table_def)
    have noidx: "extract_table yr df \<noteq> Inl IndexError"
      using ext build_records_error [of yr "columns df" m "estimate_cols (columns df)" IndexError]
      by (auto split: if_splits)
    have mem: "m \<in> set (rows df)" using sp(1) by simp
    show ?thesis using sel sp low ext noidx mem by blast
  qed
qed

theorem select_row_total_witness:
  "label_col \<in> set (columns acs_income_table) \<and> rows acs_income_table \<noteq> []
   \<and> select_row acs_income_table
       = Inr [Text ''MEDIAN household income'', Text ''96,339'', Text ''+/-1,200'', Null, Text ''**'']
   \<and> extract_table 2020 acs_income_table \<noteq> Inl IndexError"
proof -
  have h1: "label_col \<in> set (columns acs_income_table)"
    by (simp add: acs_income_table_def label_col_def)
  have h2: "rows acs_income_table \<noteq> []"
    by (simp add: acs_income_table_def)
  have sel: "select_row acs_income_table
       = Inr [Text ''MEDIAN household income'', Text ''96,339'', Text ''+/-1,200'', Null, Text ''**'']"
    by (simp add: select_row_def acs_income_table_def cell_at_def label_col_def text_defs)
  from select_row_total [OF h1 h2, of 2020]
  have "extract_table 2020 acs_income_table \<noteq> Inl IndexError" by blast
  with h1 h2 sel show ?thesis by simp
qed

subsection \<open>Column selection and the records emitted\<close>

lemma startswith_append: "startswith (p @ s) p"
  by (induction p) auto

lemma endswith_append: "endswith (g @ s) s"
  by (simp add: endswith_def startswith_append)

lemma endswith_margin: "\<not> endswith (g @ ''!!Margin of Error'') ''!!Estimate''"
  by (simp add: endswith_def)

lemma estimate_cols_pairs:
  "estimate_cols (concat (map (\<lambda>g. [g @ ''!!Estimate'', g @ ''!!Margin of Error'']) geos))
     = map (\<lambda>g. g @ ''!!Estimate'') geos"
  by (induction geos) (simp_all add: estimate_cols_def endswith_append endswith_margin)

lemma estimate_cols_label:
  "estimate_cols (label_col # cols) = estimate_cols cols"
  by (simp add: estimate_cols_def endswith_def label_col_def)

lemma split_first_geo:
  "CHR ''!'' \<notin> set g \<Longrightarrow> split_first ''!!'' (g @ ''!!Estimate'') = g"
  by (induction g) auto

lemma build_records_ok:
  "\<forall>c \<in> set ecols. cell_value (cell_at cols r c) \<noteq> Inl ValueError
   \<Longrightarrow> build_records yr cols r ecols
        = Inr (map (\<lambda>c. \<lparr>year = yr, geo_name = split_first ''!!'' c,
                         metric_value = projr (cell_value (cell_at cols r c))\<rparr>) ecols)"
proof (induction ecols)
  case Nil
  then show ?case by simp
next
  case (Cons a ecols)
  then have ih: "build_records yr cols r ecols
        = Inr (map (\<lambda>c. \<lparr>year = yr, geo_name = split_first ''!!'' c,
                         metric_value = projr (cell_value (cell_at cols r c))\<rparr>) ecols)"
    by simp
  from Cons.prems have "cell_value (cell_at cols r a) \<noteq> Inl ValueError" by simp
  then obtain v where v: "cell_value (cell_at cols r a) = Inr v"
    by (cases "cell_value (cell_at cols r a)") (auto dest: cell_value_error)
  show ?case using ih v by simp
qed

text \<open>
  C5, as the code has it. In a table with the label column and a selected row \<open>r\<close>:
  with no column whose name ends in \<^verbatim>\<open>!!Estimate\<close> the extraction fails with \<^verbatim>\<open>KeyError\<close>;
  otherwise, when every cell of \<open>r\<close> under such a column is null, blank or readable as a
  float, it emits one record per such column, in column order, and from no other column,
  whose geography is the column name up to its first \<^verbatim>\<open>!!\<close> and whose value is that cell's.
  So \<open>N\<close> pairs \<^verbatim>\<open><Geo>!!Estimate\<close>, \<^verbatim>\<open><Geo>!!Margin of Error\<close> with no exclamation mark in
  \<^verbatim>\<open><Geo>\<close> give exactly \<open>N\<close> records, named by the \<^verbatim>\<open><Geo>\<close> in order.
\<close>
theorem extract_table_estimate_columns:
  assumes "label_col \<in> set (columns df)" and "select_row df = Inr r"
  shows "(estimate_cols (columns df) = [] \<longrightarrow> extract_table yr df = Inl KeyError)
    \<and> (estimate_cols (columns df) \<noteq> []
         \<and> (\<forall>c \<in> set (estimate_cols (columns df)). cell_value (cell_at (columns df) r c) \<noteq> Inl ValueError)
       \<longrightarrow> extract_table yr df
             = Inr (map (\<lambda>c. \<lparr>year = yr, geo_name = split_first ''!!'' c,
                               metric_value = projr (cell_value (cell_at (columns df) r c))\<rparr>)
                      (estimate_cols (columns df))))
    \<and> (\<forall>c \<in> set (estimate_cols (columns df)). c \<in> set (columns df) \<and> endswith c ''!!Estimate'')
    \<and> (\<forall>geos. columns df = label_col # concat (map (\<lambda>g. [g @ ''!!Estimate'', g @ ''!!Margin of Error'']) geos)
           \<and> geos \<noteq> [] \<and> (\<forall>g \<in> set geos. CHR ''!'' \<notin> set g)
           \<and> (\<forall>g \<in> set geos. cell_value (cell_at (columns df) r (g @ ''!!Estimate'')) \<noteq> Inl ValueError)
         \<longrightarrow> (\<exists>recs. extract_table yr df = Inr recs \<and> length recs = length geos
                 \<and> map geo_name recs = geos \<and> map year recs = map (\<lambda>g. yr) geos
                 \<and> map metric_value recs
                     = map (\<lambda>g. projr (cell_value (cell_at (columns df) r (g @ ''!!Estimate'')))) geos))"
proof -
  let ?ecols = "estimate_cols (columns df)"
  let ?mk = "\<lambda>c. \<lparr>year = yr, geo_name = split_first ''!!'' c,
                   metric_value = projr (cell_value (cell_at (columns df) r c))\<rparr>"
  have ext: "extract_table yr df =
      (if ?ecols = [] then Inl KeyError else build_records yr (columns df) r ?ecols)"
    using assms by (simp add: extract_table_def)
  have p1: "?ecols = [] \<longrightarrow> extract_table yr df = Inl KeyError"
    using ext by simp
  have p2: "?ecols \<noteq> [] \<and> (\<forall>c \<in> set ?ecols. cell_value (cell_at (columns df) r c) \<noteq> Inl ValueError)
       \<longrightarrow> extract_table yr df = Inr (map ?mk ?ecols)"
    using ext build_records_ok [of ?ecols "columns df" r yr] by simp
  have p3: "\<forall>c \<in> set ?ecols. c \<in> set (columns df) \<and> endswith c ''!!Estimate''"
    by (simp add: estimate_cols_def)
  have p4: "\<exists>recs. extract_table yr df = Inr recs \<and> length recs = length geos
                 \<and> map geo_name recs = geos \<and> map year recs = map (\<lambda>g. yr) geos
                 \<and> map metric_value recs
                     = map (\<lambda>g. projr (cell_value (cell_at (columns df) r (g @ ''!!Estimate'')))) geos"
    if cols: "columns df = label_col # concat (map (\<lambda>g. [g @ ''!!Estimate'', g @ ''!!Margin of Error'']) geos)"
      and ne: "geos \<noteq> []" and ex: "\<forall>g \<in> set geos. CHR ''!'' \<notin> set g"
      and ok: "\<forall>g \<in> set geos. cell_value (cell_at (columns df) r (g @ ''!!Estimate'')) \<noteq> Inl ValueError"
    for geos
  proof -
    have ec: "?ecols = map (\<lambda>g. g @ ''!!Estimate'') geos"
      using cols by (simp add: estimate_cols_label estimate_cols_pairs)
    have ne': "?ecols \<noteq> []" using ec ne by simp
    have ok': "\<forall>c \<in> set ?ecols. cell_value (cell_at (columns df) r c) \<noteq> Inl ValueError"
      using ec ok by auto
    have res: "extract_table yr df = Inr (map ?mk ?ecols)"
      using p2 ne' ok' by blast
    have names: "map geo_name (map ?mk ?ecols) = geos"
      unfolding ec using ex by (induction geos) (simp_all add: split_first_geo)
    have years: "map year (map ?mk ?ecols) = map (\<lambda>g. yr) geos"
      unfolding ec by (simp add: comp_def)
    have vals: "map metric_value (map ?mk ?ecols)
        = map (\<lambda>g. projr (cell_value (cell_at (columns df) r (g @ ''!!Estimate'')))) geos"
      unfolding ec by (simp add: comp_def)
    have len: "length (map ?mk ?ecols) = length geos"
      unfolding ec by simp
    show ?thesis using res names years vals len by blast
  qed
  show ?thesis using p1 p2 p3 p4 by blast
qed

theorem extract_table_estimate_columns_witness:
  "label_col \<in> set (columns acs_income_table)
   \<and> select_row acs_income_table
       = Inr [Text ''MEDIAN household income'', Text ''96,339'', Text ''+/-1,200'', Null, Text ''**'']
   \<and> extract_table 2020 acs_income_table
       = Inr [\<lparr>year = 2020, geo_name = ''Hennepin County, Minnesota'', metric_value = Some (FFin 96339)\<rparr>,
              \<lparr>year = 2020, geo_name = ''Ramsey County, Minnesota'', metric_value = None\<rparr>]
   \<and> select_row acs_no_estimate_table = Inr [Text ''Median gross rent'', Text ''+/-15'']
   \<and> extract_table 2020 acs_no_estimate_table = Inl KeyError"
proof -
  let ?r = "[Text ''MEDIAN household income'', Text ''96,339'', Text ''+/-1,200'', Null, Text ''**'']"
  have h1: "label_col \<in> set (columns acs_income_table)"
    by (simp add: acs_income_table_def label_col_def)
  have sel: "select_row acs_income_table = Inr ?r"
    by (simp add: select_row_def acs_income_table_def cell_at_def label_col_def text_defs)
  have ec: "estimate_cols (columns acs_income_table)
      = [''Hennepin County, Minnesota!!Estimate'', ''Ramsey County, Minnesota!!Estimate'']"
    by (simp add: estimate_cols_def acs_income_table_def endswith_def)
  have c1: "cell_value (cell_at (columns acs_income_table) ?r ''Hennepin County, Minnesota!!Estimate'')
      = Inr (Some (FFin 96339))"
    by (simp add: acs_income_table_def cell_at_def cell_value_def text_defs float_defs)
  have c2: "cell_value (cell_at (columns acs_income_table) ?r ''Ramsey County, Minnesota!!Estimate'')
      = Inr None"
    by (simp add: acs_income_table_def cell_at_def cell_value_def)
  have ok: "estimate_cols (columns acs_income_table) \<noteq> []
      \<and> (\<forall>c \<in> set (estimate_cols (columns acs_income_table)).
            cell_value (cell_at (columns acs_income_table) ?r c) \<noteq> Inl ValueError)"
    unfolding ec using c1 c2 by simp
  from extract_table_estimate_columns [OF h1 sel, of 2020] ok
  have "extract_table 2020 acs_income_table
      = Inr (map (\<lambda>c. \<lparr>year = 2020, geo_name = split_first ''!!'' c,
                       metric_value = projr (cell_value (cell_at (columns acs_income_table) ?r c))\<rparr>)
               (estimate_cols (columns acs_income_table)))"
    by blast
  then have res: "extract_table 2020 acs_income_table
       = Inr [\<lparr>year = 2020, geo_name = ''Hennepin County, Minnesota'', metric_value = Some (FFin 96339)\<rparr>,
              \<lparr>year = 2020, geo_name = ''Ramsey County, Minnesota'', metric_value = None\<rparr>]"
    unfolding ec using c1 c2 by simp
  have h1': "label_col \<in> set (columns acs_no_estimate_table)"
    by (simp add: acs_no_estimate_table_def label_col_def)
  have sel': "select_row acs_no_estimate_table = Inr [Text ''Median gross rent'', Text ''+/-15'']"
    by (simp add: select_row_def acs_no_estimate_table_def cell_at_def label_col_def text_defs)
  have ec': "estimate_cols (columns acs_no_estimate_table) = []"
    by (simp add: estimate_cols_def acs_no_estimate_table_def endswith_def)
  from extract_table_estimate_columns [OF h1' sel', of 2020] ec'
  have res': "extract_table 2020 acs_no_estimate_table = Inl KeyError" by blast
  show ?thesis using h1 sel res sel' res' by simp
qed

text \<open>A table with a median row and one pair of columns whose estimate is the survey's
  dash: the extraction raises \<^verbatim>\<open>ValueError\<close> and emits no record.\<close>
theorem extract_table_dash_counterexample:
  "columns acs_dash_table
     = label_col # concat (map (\<lambda>g. [g @ ''!!Estimate'', g @ ''!!Margin of Error''])
                              [''Hennepin County, Minnesota''])
   \<and> select_row acs_dash_table
       = Inr [Text ''Median household income in the past 12 months'', Text ''-'', Text ''**'']
   \<and> label_matches (Text ''Median household income in the past 12 months'')
   \<and> extract_table 2020 acs_dash_table = Inl ValueError"
  by (simp add: acs_dash_table_def label_col_def select_row_def cell_at_def extract_table_def
      estimate_cols_def cell_value_def text_defs float_defs)

subsection \<open>The geography expansion\<close>

text \<open>
  C4. A row is expanded into the two Otter Tail geographies when the text of its county
  name holds \<^verbatim>\<open>otter tail\<close> in any case, followed by the two Hennepin geographies when it
  holds \<^verbatim>\<open>hennepin\<close>; every record carries the row's benchmark value and the year, and a
  row that matches neither token gives no record.
\<close>
theorem expand_to_acs_geos_records:
  assumes "row_lookup row ''hud_fmr_2br'' = Some fmr"
    and "county = lower (py_str fmt (case row_lookup row ''countyname'' of
                                        None \<Rightarrow> Scalar (Text []) | Some v \<Rightarrow> v))"
  shows "\<exists>recs. expand_to_acs_geos fmt yr row = Inr recs
     \<and> map geo_name recs
         = (if str_contains county ''otter tail''
            then [''Otter Tail County, Minnesota'', ''Fergus Falls city, Minnesota''] else [])
           @ (if str_contains county ''hennepin''
              then [''Hennepin County, Minnesota'', ''Minneapolis city, Minnesota''] else [])
     \<and> (\<forall>r \<in> set recs. year r = yr \<and> hud_fmr_2br r = fmr)
     \<and> (\<not> str_contains county ''otter tail'' \<and> \<not> str_contains county ''hennepin'' \<longrightarrow> recs = [])"
  using assms
  by (auto simp: expand_to_acs_geos_def Let_def otter_tail_geos_def hennepin_geos_def)



theorem expand_to_acs_geos_records_witness:
  "row_lookup (sub_row (columns hud_new_table) ''areaname'' ''fmr_2'' (hd (rows hud_new_table))) ''hud_fmr_2br''
     = Some (Scalar (Num (FFin 700)))
   \<and> (\<exists>recs. expand_to_acs_geos fmt_blank 2020
                (sub_row (columns hud_new_table) ''areaname'' ''fmr_2'' (hd (rows hud_new_table))) = Inr recs
         \<and> map geo_name recs = [''Otter Tail County, Minnesota'', ''Fergus Falls city, Minnesota'']
         \<and> map year recs = [2020, 2020]
         \<and> map hud_fmr_2br recs = [Scalar (Num (FFin 700)), Scalar (Num (FFin 700))])"
proof -
  let ?row = "sub_row (columns hud_new_table) ''areaname'' ''fmr_2'' (hd (rows hud_new_table))"
  have h: "row_lookup ?row ''hud_fmr_2br'' = Some (Scalar (Num (FFin 700)))"
    by (simp add: row_lookup_def sub_row_def hud_new_table_def cell_at_def)
  have c: "lower (py_str fmt_blank (case row_lookup ?row ''countyname'' of
                                        None \<Rightarrow> Scalar (Text []) | Some v \<Rightarrow> v))
             = ''otter tail county''"
    by (simp add: row_lookup_def sub_row_def hud_new_table_def cell_at_def py_str_def text_defs)
  from expand_to_acs_geos_records [OF h c [symmetric], of 2020]
  obtain recs where r: "expand_to_acs_geos fmt_blank 2020 ?row = Inr recs"
    "map geo_name recs = [''Otter Tail County, Minnesota'', ''Fergus Falls city, Minnesota'']"
    "\<forall>r \<in> set recs. year r = 2020 \<and> hud_fmr_2br r = Scalar (Num (FFin 700))"
    by auto
  from r(2) obtain a b where ab: "recs = [a, b]" by auto
  have ys: "map year recs = [2020, 2020]"
    and vs: "map hud_fmr_2br recs = [Scalar (Num (FFin 700)), Scalar (Num (FFin 700))]"
    using r(3) ab by simp_all
  have "\<exists>recs. expand_to_acs_geos fmt_blank 2020 ?row = Inr recs
         \<and> map geo_name recs = [''Otter Tail County, Minnesota'', ''Fergus Falls city, Minnesota'']
         \<and> map year recs = [2020, 2020]
         \<and> map hud_fmr_2br recs = [Scalar (Num (FFin 700)), Scalar (Num (FFin 700))]"
    using r(1) r(2) ys vs by (intro exI [of _ recs] conjI)
  with h show ?thesis by (rule conjI)
qed

subsection \<open>The choice of the HUD columns\<close>

lemma filter_first:
  "filter P xs = x # ys \<Longrightarrow> \<exists>pre post. xs = pre @ x # post \<and> P x \<and> (\<forall>c \<in> set pre. \<not> P c)"
  unfolding filter_eq_Cons_iff by blast

lemma select_columns_exact:
  "''areaname'' \<in> set cols \<Longrightarrow> ''fmr_2'' \<in> set cols
   \<Longrightarrow> select_columns path cols = Inr (''areaname'', ''fmr_2'')"
  by (simp add: select_columns_def)

lemma select_columns_heuristic:
  assumes "\<not> (''areaname'' \<in> set cols \<and> ''fmr_2'' \<in> set cols)"
    and "select_columns path cols = Inr (g, f)"
  shows "(\<exists>pre post. cols = pre @ g # post \<and> is_geo_candidate g
             \<and> (\<forall>c \<in> set pre. \<not> is_geo_candidate c))
       \<and> (\<exists>pre post. cols = pre @ f # post \<and> is_fmr_candidate f
             \<and> (\<forall>c \<in> set pre. \<not> is_fmr_candidate c))"
proof -
  from assms obtain gs fs where
    "filter is_geo_candidate cols = g # gs" "filter is_fmr_candidate cols = f # fs"
    by (auto simp: select_columns_def split: list.splits if_splits)
  then show ?thesis using filter_first by metis
qed

lemma select_columns_found:
  assumes "\<exists>c \<in> set cols. is_geo_candidate c" and "\<exists>c \<in> set cols. is_fmr_candidate c"
  shows "\<exists>g f. select_columns path cols = Inr (g, f)"
proof -
  from assms have "filter is_geo_candidate cols \<noteq> []" "filter is_fmr_candidate cols \<noteq> []"
    by (auto simp: filter_empty_conv)
  then show ?thesis
    by (auto simp: select_columns_def split: list.splits)
qed

lemma select_columns_none:
  assumes "\<not> (''areaname'' \<in> set cols \<and> ''fmr_2'' \<in> set cols)"
    and "(\<forall>c \<in> set cols. \<not> is_geo_candidate c) \<or> (\<forall>c \<in> set cols. \<not> is_fmr_candidate c)"
  shows "select_columns path cols = Inl (NoGeoColumn path)
       \<or> select_columns path cols = Inl (NoFmrColumn path)"
proof -
  from assms(2) have "filter is_geo_candidate cols = [] \<or> filter is_fmr_candidate cols = []"
    by (auto simp: filter_empty_conv)
  then show ?thesis using assms(1)
    by (auto simp: select_columns_def split: list.splits)
qed

lemma hud_year_skipped:
  assumes "map_of HUD_FMR_FILES yr = Some path" and "fs path = Workbook df"
    and "select_columns path (columns df) = Inl ev"
  shows "hud_year fmt fs yr = ([ev], Inr [])"
  using assms by (simp add: hud_year_def)

text \<open>
  C6. When the table has both a column \<^verbatim>\<open>areaname\<close> and a column \<^verbatim>\<open>fmr_2\<close>, these two are
  chosen. Otherwise the geography column is the first column whose lower-cased name holds
  \<^verbatim>\<open>name\<close> or \<^verbatim>\<open>area\<close>, and the value column the first whose lower-cased name holds one of
  \<^verbatim>\<open>2br\<close>, \<^verbatim>\<open>2 br\<close>, \<^verbatim>\<open>fmr2\<close>, \<^verbatim>\<open>fmr_2\<close>; both are found whenever each search has a
  candidate. When one of the searches has none, a line is printed and the year gives no
  record.
\<close>
theorem select_columns_priority:
  "(''areaname'' \<in> set cols \<and> ''fmr_2'' \<in> set cols
      \<longrightarrow> select_columns path cols = Inr (''areaname'', ''fmr_2''))
   \<and> (\<forall>c. is_geo_candidate c = (str_contains (lower c) ''name'' \<or> str_contains (lower c) ''area''))
   \<and> (\<forall>c. is_fmr_candidate c
          = (\<exists>k \<in> set [''2br'', ''2 br'', ''fmr2'', ''fmr_2'']. str_contains (lower c) k))
   \<and> (\<forall>g f. \<not> (''areaname'' \<in> set cols \<and> ''fmr_2'' \<in> set cols)
          \<and> select_columns path cols = Inr (g, f)
        \<longrightarrow> (\<exists>pre post. cols = pre @ g # post \<and> is_geo_candidate g
                  \<and> (\<forall>c \<in> set pre. \<not> is_geo_candidate c))
            \<and> (\<exists>pre post. cols = pre @ f # post \<and> is_fmr_candidate f
                  \<and> (\<forall>c \<in> set pre. \<not> is_fmr_candidate c)))
   \<and> ((\<exists>c \<in> set cols. is_geo_candidate c) \<and> (\<exists>c \<in> set cols. is_fmr_candidate c)
        \<longrightarrow> (\<exists>g f. select_columns path cols = Inr (g, f)))
   \<and> (\<not> (''areaname'' \<in> set cols \<and> ''fmr_2'' \<in> set cols)
        \<and> ((\<forall>c \<in> set cols. \<not> is_geo_candidate c) \<or> (\<forall>c \<in> set cols. \<not> is_fmr_candidate c))
        \<longrightarrow> (\<exists>ev. select_columns path cols = Inl ev
               \<and> (ev = NoGeoColumn path \<or> ev = NoFmrColumn path)
               \<and> (\<forall>fmt fs yr df. map_of HUD_FMR_FILES yr = Some path \<and> fs path = Workbook df
                       \<and> columns df = cols
                     \<longrightarrow> hud_year fmt fs yr = ([ev], Inr []))))"
proof -
  have p1: "''areaname'' \<in> set cols \<and> ''fmr_2'' \<in> set cols
      \<longrightarrow> select_columns path cols = Inr (''areaname'', ''fmr_2'')"
    by (simp add: select_columns_exact)
  have p2: "\<forall>c. is_geo_candidate c = (str_contains (lower c) ''name'' \<or> str_contains (lower c) ''area'')"
    by (simp add: is_geo_candidate_def)
  have p3: "\<forall>c. is_fmr_candidate c
          = (\<exists>k \<in> set [''2br'', ''2 br'', ''fmr2'', ''fmr_2'']. str_contains (lower c) k)"
    by (simp add: is_fmr_candidate_def fmr_keywords_def list_ex_iff)
  have p4: "\<forall>g f. \<not> (''areaname'' \<in> set cols \<and> ''fmr_2'' \<in> set cols)
          \<and> select_columns path cols = Inr (g, f)
        \<longrightarrow> (\<exists>pre post. cols = pre @ g # post \<and> is_geo_candidate g
                  \<and> (\<forall>c \<in> set pre. \<not> is_geo_candidate c))
            \<and> (\<exists>pre post. cols = pre @ f # post \<and> is_fmr_candidate f
                  \<and> (\<forall>c \<in> set pre. \<not> is_fmr_candidate c))"
    using select_columns_heuristic [of cols path] by blast
  have p5: "(\<exists>c \<in> set cols. is_geo_candidate c) \<and> (\<exists>c \<in> set cols. is_fmr_candidate c)
        \<longrightarrow> (\<exists>g f. select_columns path cols = Inr (g, f))"
    using select_columns_found [of cols path] by blast
  have p6: "\<exists>ev. select_columns path cols = Inl ev
               \<and> (ev = NoGeoColumn path \<or> ev = NoFmrColumn path)
               \<and> (\<forall>fmt fs yr df. map_of HUD_FMR_FILES yr = Some path \<and> fs path = Workbook df
                       \<and> columns df = cols
                     \<longrightarrow> hud_year fmt fs yr = ([ev], Inr []))"
    if a: "\<not> (''areaname'' \<in> set cols \<and> ''fmr_2'' \<in> set cols)"
      and b: "(\<forall>c \<in> set cols. \<not> is_geo_candidate c) \<or> (\<forall>c \<in> set cols. \<not> is_fmr_candidate c)"
  proof -
    from select_columns_none [OF a b, of path] obtain ev where
      ev: "select_columns path cols = Inl ev" "ev = NoGeoColumn path \<or> ev = NoFmrColumn path"
      by blast
    have "hud_year fmt fs yr = ([ev], Inr [])"
      if "map_of HUD_FMR_FILES yr = Some path \<and> fs path = Workbook df \<and> columns df = cols"
      for fmt fs yr df
      using that ev(1) hud_year_skipped [of yr path fs df ev fmt] by simp
    with ev show ?thesis by blast
  qed
  show ?thesis using p1 p2 p3 p4 p5 p6 by blast
qed

lemmas cand_defs = is_geo_candidate_def is_fmr_candidate_def fmr_keywords_def

theorem select_columns_priority_witness:
  "select_columns ''2020/FY20_4050_FMRs_rev.xlsx'' (columns hud_new_table) = Inr (''areaname'', ''fmr_2'')
   \<and> select_columns ''2013/FY2013_4050_Final.xls'' (columns hud_old_table) = Inr (''countyname'', ''fmr2'')
   \<and> (\<exists>pre post. columns hud_old_table = pre @ ''countyname'' # post
          \<and> is_geo_candidate ''countyname'' \<and> list_all (\<lambda>c. \<not> is_geo_candidate c) pre)
   \<and> (\<exists>g f. select_columns ''2013/FY2013_4050_Final.xls'' (columns hud_old_table) = Inr (g, f))
   \<and> hud_year fmt_blank example_fs 2016
       = ([NoFmrColumn ''2016/FY2016F-4050-RevFinal4.xlsx''], Inr [])"
proof -
  let ?new = "columns hud_new_table" and ?old = "columns hud_old_table"
  let ?bad = "columns hud_no_fmr_table"
  have ex: "''areaname'' \<in> set ?new \<and> ''fmr_2'' \<in> set ?new"
    by (simp add: hud_new_table_def)
  have a: "select_columns ''2020/FY20_4050_FMRs_rev.xlsx'' ?new = Inr (''areaname'', ''fmr_2'')"
    using select_columns_priority [of ?new "''2020/FY20_4050_FMRs_rev.xlsx''"] ex by blast
  have nex: "\<not> (''areaname'' \<in> set ?old \<and> ''fmr_2'' \<in> set ?old)"
    by (simp add: hud_old_table_def)
  have sel: "select_columns ''2013/FY2013_4050_Final.xls'' ?old = Inr (''countyname'', ''fmr2'')"
    by (simp add: select_columns_def hud_old_table_def cand_defs text_defs)
  from select_columns_priority [of ?old "''2013/FY2013_4050_Final.xls''"] nex sel
  have "\<exists>pre post. ?old = pre @ ''countyname'' # post \<and> is_geo_candidate ''countyname''
          \<and> (\<forall>c \<in> set pre. \<not> is_geo_candidate c)"
    by blast
  then have b: "\<exists>pre post. ?old = pre @ ''countyname'' # post
          \<and> is_geo_candidate ''countyname'' \<and> list_all (\<lambda>c. \<not> is_geo_candidate c) pre"
    by (simp add: list_all_iff)
  have cands: "(\<exists>c \<in> set ?old. is_geo_candidate c) \<and> (\<exists>c \<in> set ?old. is_fmr_candidate c)"
    by (simp add: hud_old_table_def cand_defs text_defs)
  have c: "\<exists>g f. select_columns ''2013/FY2013_4050_Final.xls'' ?old = Inr (g, f)"
    using select_columns_priority [of ?old "''2013/FY2013_4050_Final.xls''"] cands by blast
  have nex': "\<not> (''areaname'' \<in> set ?bad \<and> ''fmr_2'' \<in> set ?bad)"
    by (simp add: hud_no_fmr_table_def)
  have none: "(\<forall>c \<in> set ?bad. \<not> is_geo_candidate c) \<or> (\<forall>c \<in> set ?bad. \<not> is_fmr_candidate c)"
    by (simp add: hud_no_fmr_table_def cand_defs text_defs)
  have fl: "map_of HUD_FMR_FILES 2016 = Some ''2016/FY2016F-4050-RevFinal4.xlsx''
      \<and> example_fs ''2016/FY2016F-4050-RevFinal4.xlsx'' = Workbook hud_no_fmr_table
      \<and> columns hud_no_fmr_table = ?bad"
    by (simp add: HUD_FMR_FILES_def example_fs_def)
  have geo: "filter is_geo_candidate ?bad \<noteq> []"
    by (simp add: hud_no_fmr_table_def cand_defs text_defs)
  from select_columns_priority [of ?bad "''2016/FY2016F-4050-RevFinal4.xlsx''"] nex' none
  obtain ev where ev: "select_columns ''2016/FY2016F-4050-RevFinal4.xlsx'' ?bad = Inl ev"
    "\<forall>fmt fs yr df. map_of HUD_FMR_FILES yr = Some ''2016/FY2016F-4050-RevFinal4.xlsx''
        \<and> fs ''2016/FY2016F-4050-RevFinal4.xlsx'' = Workbook df \<and> columns df = ?bad
        \<longrightarrow> hud_year fmt fs yr = ([ev], Inr [])"
    by blast
  have "select_columns ''2016/FY2016F-4050-RevFinal4.xlsx'' ?bad
      = Inl (NoFmrColumn ''2016/FY2016F-4050-RevFinal4.xlsx'')"
    by (simp add: select_columns_def hud_no_fmr_table_def cand_defs text_defs)
  with ev(1) have "ev = NoFmrColumn ''2016/FY2016F-4050-RevFinal4.xlsx''" by simp
  with ev(2) fl have d: "hud_year fmt_blank example_fs 2016
       = ([NoFmrColumn ''2016/FY2016F-4050-RevFinal4.xlsx''], Inr [])"
    by blast
  show ?thesis using a sel b c d by (intro conjI)
qed

subsection \<open>The loop over the HUD years\<close>

lemma hud_loop_log_irrelevant:
  "snd (hud_loop fmt fs ys lg frames) = snd (hud_loop fmt fs ys lg' frames)"
proof (induction ys arbitrary: lg lg' frames)
  case Nil
  show ?case by simp
next
  case (Cons y ys)
  obtain out res where yr: "hud_year fmt fs y = (out, res)" by (cases "hud_year fmt fs y")
  show ?case
  proof (cases res)
    case (Inl e)
    with yr show ?thesis by simp
  next
    case (Inr recs)
    with yr Cons.IH [of "lg @ out" "if recs = [] then frames else frames @ [recs]" "lg' @ out"]
    show ?thesis by simp
  qed
qed

lemma hud_loop_append:
  "hud_loop fmt fs (ys1 @ ys2) lg frames
     = (case hud_loop fmt fs ys1 lg frames of
          (l, Inl e) \<Rightarrow> (l, Inl e)
        | (l, Inr f) \<Rightarrow> hud_loop fmt fs ys2 l f)"
proof (induction ys1 arbitrary: lg frames)
  case Nil
  show ?case by simp
next
  case (Cons y ys1)
  obtain out res where yr: "hud_year fmt fs y = (out, res)" by (cases "hud_year fmt fs y")
  show ?case
  proof (cases res)
    case (Inl e)
    with yr show ?thesis by simp
  next
    case (Inr recs)
    with yr Cons.IH show ?thesis by simp
  qed
qed

lemma hud_loop_skip:
  assumes "snd (hud_year fmt fs y) = Inr []"
  shows "snd (hud_loop fmt fs (ys1 @ y # ys2) lg frames) = snd (hud_loop fmt fs (ys1 @ ys2) lg frames)"
proof -
  obtain out where yr: "hud_year fmt fs y = (out, Inr [])"
    using assms by (cases "hud_year fmt fs y") auto
  obtain l res where l1: "hud_loop fmt fs ys1 lg frames = (l, res)"
    by (cases "hud_loop fmt fs ys1 lg frames")
  show ?thesis
  proof (cases res)
    case (Inl e)
    with l1 show ?thesis by (simp add: hud_loop_append)
  next
    case (Inr f)
    have "snd (hud_loop fmt fs (y # ys2) l f) = snd (hud_loop fmt fs ys2 l f)"
      using yr hud_loop_log_irrelevant [of fmt fs ys2 "l @ out" f l] by simp
    with l1 Inr show ?thesis by (simp add: hud_loop_append)
  qed
qed

lemma hud_loop_all_ok:
  "\<forall>z \<in> set ys. \<exists>recs. snd (hud_year fmt fs z) = Inr recs
   \<Longrightarrow> \<exists>fr. hud_loop fmt fs ys lg frames
              = (lg @ concat (map (\<lambda>z. fst (hud_year fmt fs z)) ys), Inr fr)
          \<and> concat fr = concat frames @ concat (map (\<lambda>z. projr (snd (hud_year fmt fs z))) ys)"
proof (induction ys arbitrary: lg frames)
  case Nil
  show ?case by simp
next
  case (Cons y ys)
  then obtain recs where r: "snd (hud_year fmt fs y) = Inr recs" by auto
  then obtain out where yr: "hud_year fmt fs y = (out, Inr recs)"
    by (cases "hud_year fmt fs y") auto
  from Cons.prems have rest: "\<forall>z \<in> set ys. \<exists>recs. snd (hud_year fmt fs z) = Inr recs" by simp
  from Cons.IH [OF rest, of "lg @ out" "if recs = [] then frames else frames @ [recs]"]
  show ?case using yr by auto
qed

lemma load_hud_fmr_snd:
  "snd (load_hud_fmr fmt fs (Some ys))
     = (case snd (hud_loop fmt fs ys [] []) of
          Inl e \<Rightarrow> Inl e
        | Inr frames \<Rightarrow>
            Inr (if frames = []
                 then \<lparr>frame_columns = [''year'', ''geo_name'', ''hud_fmr_2br''], frame_rows = []\<rparr>
                 else \<lparr>frame_columns = [''year'', ''hud_fmr_2br'', ''geo_name''],
                       frame_rows = concat frames\<rparr>))"
  by (cases "hud_loop fmt fs ys [] []") (auto simp: load_hud_fmr_def split: sum.splits)

lemma load_hud_fmr_fst:
  "fst (load_hud_fmr fmt fs (Some ys)) = fst (hud_loop fmt fs ys [] [])"
  by (cases "hud_loop fmt fs ys [] []") (auto simp: load_hud_fmr_def split: sum.splits)

lemma hud_year_failed:
  assumes "map_of HUD_FMR_FILES y = None
     \<or> (\<exists>path. map_of HUD_FMR_FILES y = Some path
           \<and> (fs path = Missing \<or> fs path = Unreadable
               \<or> (\<exists>df ev. fs path = Workbook df \<and> select_columns path (columns df) = Inl ev)))"
  shows "\<exists>ev. hud_year fmt fs y = ([ev], Inr [])"
  using assms by (auto simp: hud_year_def)

text \<open>
  C2, as the code has it. A year with no configured file, with a file that is not there,
  with a workbook that cannot be read, or with a table in which a column search finds no
  candidate prints one line and gives no record, and \<^verbatim>\<open>load_hud_fmr\<close> returns what it
  returns without that year in the list. When no other year of the list raises, the
  frame returned holds the records of the other years, in order, and the line of the
  failed year is among the lines printed.
\<close>
theorem hud_failed_year_isolated:
  assumes "map_of HUD_FMR_FILES y = None
     \<or> (\<exists>path. map_of HUD_FMR_FILES y = Some path
           \<and> (fs path = Missing \<or> fs path = Unreadable
               \<or> (\<exists>df ev. fs path = Workbook df \<and> select_columns path (columns df) = Inl ev)))"
  shows "(\<exists>ev. hud_year fmt fs y = ([ev], Inr []))
    \<and> snd (load_hud_fmr fmt fs (Some (ys1 @ y # ys2))) = snd (load_hud_fmr fmt fs (Some (ys1 @ ys2)))
    \<and> ((\<forall>z \<in> set (ys1 @ ys2). \<exists>recs. snd (hud_year fmt fs z) = Inr recs)
        \<longrightarrow> (\<exists>fr. snd (load_hud_fmr fmt fs (Some (ys1 @ y # ys2))) = Inr fr
              \<and> frame_rows fr = concat (map (\<lambda>z. projr (snd (hud_year fmt fs z))) (ys1 @ ys2))
              \<and> set (fst (hud_year fmt fs y))
                  \<subseteq> set (fst (load_hud_fmr fmt fs (Some (ys1 @ y # ys2))))))"
proof -
  from hud_year_failed [OF assms, of fmt] obtain ev where ev: "hud_year fmt fs y = ([ev], Inr [])"
    by blast
  then have skip: "snd (hud_year fmt fs y) = Inr []" by simp
  have same: "snd (load_hud_fmr fmt fs (Some (ys1 @ y # ys2)))
      = snd (load_hud_fmr fmt fs (Some (ys1 @ ys2)))"
    by (simp only: load_hud_fmr_snd hud_loop_skip [OF skip])
  have all: "\<exists>fr. snd (load_hud_fmr fmt fs (Some (ys1 @ y # ys2))) = Inr fr
              \<and> frame_rows fr = concat (map (\<lambda>z. projr (snd (hud_year fmt fs z))) (ys1 @ ys2))
              \<and> set (fst (hud_year fmt fs y))
                  \<subseteq> set (fst (load_hud_fmr fmt fs (Some (ys1 @ y # ys2))))"
    if ok: "\<forall>z \<in> set (ys1 @ ys2). \<exists>recs. snd (hud_year fmt fs z) = Inr recs"
  proof -
    let ?ys = "ys1 @ y # ys2"
    from ok skip have "\<forall>z \<in> set ?ys. \<exists>recs. snd (hud_year fmt fs z) = Inr recs" by auto
    from hud_loop_all_ok [OF this, of "[]" "[]"] obtain fr where
      lp: "hud_loop fmt fs ?ys [] [] = (concat (map (\<lambda>z. fst (hud_year fmt fs z)) ?ys), Inr fr)"
      and cc: "concat fr = concat (map (\<lambda>z. projr (snd (hud_year fmt fs z))) ?ys)"
      by auto
    have cc': "concat fr = concat (map (\<lambda>z. projr (snd (hud_year fmt fs z))) (ys1 @ ys2))"
      using cc skip by simp
    let ?fr = "if fr = []
                 then \<lparr>frame_columns = [''year'', ''geo_name'', ''hud_fmr_2br''], frame_rows = []\<rparr>
                 else \<lparr>frame_columns = [''year'', ''hud_fmr_2br'', ''geo_name''],
                       frame_rows = concat fr\<rparr>"
    have res: "snd (load_hud_fmr fmt fs (Some ?ys)) = Inr ?fr"
      using lp by (simp add: load_hud_fmr_snd)
    have rows: "frame_rows ?fr = concat fr" by simp
    have lg: "set (fst (hud_year fmt fs y)) \<subseteq> set (fst (load_hud_fmr fmt fs (Some ?ys)))"
      using lp by (auto simp: load_hud_fmr_fst)
    show ?thesis using res rows cc' lg by (intro exI [of _ ?fr] conjI) simp_all
  qed
  show ?thesis using ev same all by blast
qed

lemma hud_year_ex_2014:
  "hud_year fmt example_fs 2014 = ([ReadFailed 2014 ''2014/FY2014_4050_RevFinal.xls''], Inr [])"
  by (simp add: hud_year_def HUD_FMR_FILES_def example_fs_def)

lemma hud_year_ex_2016:
  "hud_year fmt example_fs 2016 = ([NoFmrColumn ''2016/FY2016F-4050-RevFinal4.xlsx''], Inr [])"
  by (simp add: hud_year_def HUD_FMR_FILES_def example_fs_def select_columns_def
      hud_no_fmr_table_def is_geo_candidate_def is_fmr_candidate_def fmr_keywords_def text_defs)

lemma hud_year_ex_2017:
  "hud_year fmt example_fs 2017 = ([], Inl KeyError)"
  by (simp add: hud_year_def HUD_FMR_FILES_def example_fs_def select_columns_def
      hud_no_county_table_def)

lemma hud_year_ex_2020:
  "hud_year fmt_blank example_fs 2020
     = ([], Inr [\<lparr>year = 2020, geo_name = ''Otter Tail County, Minnesota'',
                  hud_fmr_2br = Scalar (Num (FFin 700))\<rparr>,
                 \<lparr>year = 2020, geo_name = ''Fergus Falls city, Minnesota'',
                  hud_fmr_2br = Scalar (Num (FFin 700))\<rparr>])"
  by (simp add: hud_year_def HUD_FMR_FILES_def example_fs_def select_columns_def
      hud_new_table_def sub_row_def cell_at_def expand_to_acs_geos_def row_lookup_def
      py_str_def otter_tail_geos_def hennepin_geos_def text_defs)

theorem hud_failed_year_isolated_witness:
  "map_of HUD_FMR_FILES 2014 = Some ''2014/FY2014_4050_RevFinal.xls''
   \<and> example_fs ''2014/FY2014_4050_RevFinal.xls'' = Unreadable
   \<and> hud_year fmt_blank example_fs 2014
       = ([ReadFailed 2014 ''2014/FY2014_4050_RevFinal.xls''], Inr [])
   \<and> snd (load_hud_fmr fmt_blank example_fs (Some [2020, 2014, 2016]))
       = snd (load_hud_fmr fmt_blank example_fs (Some [2020, 2016]))
   \<and> (\<exists>fr. snd (load_hud_fmr fmt_blank example_fs (Some [2020, 2014, 2016])) = Inr fr
         \<and> frame_rows fr
             = [\<lparr>year = 2020, geo_name = ''Otter Tail County, Minnesota'',
                  hud_fmr_2br = Scalar (Num (FFin 700))\<rparr>,
                 \<lparr>year = 2020, geo_name = ''Fergus Falls city, Minnesota'',
                  hud_fmr_2br = Scalar (Num (FFin 700))\<rparr>])
   \<and> ReadFailed 2014 ''2014/FY2014_4050_RevFinal.xls''
       \<in> set (fst (load_hud_fmr fmt_blank example_fs (Some [2020, 2014, 2016])))"
proof -
  have cfg: "map_of HUD_FMR_FILES 2014 = Some ''2014/FY2014_4050_RevFinal.xls''"
    by (simp add: HUD_FMR_FILES_def)
  have st: "example_fs ''2014/FY2014_4050_RevFinal.xls'' = Unreadable"
    by (simp add: example_fs_def)
  have pre: "map_of HUD_FMR_FILES 2014 = None
     \<or> (\<exists>path. map_of HUD_FMR_FILES 2014 = Some path
           \<and> (example_fs path = Missing \<or> example_fs path = Unreadable
               \<or> (\<exists>df ev. example_fs path = Workbook df \<and> select_columns path (columns df) = Inl ev)))"
    using cfg st by simp
  note t = hud_failed_year_isolated [OF pre, of fmt_blank "[2020]" "[2016]"]
  have others: "\<forall>z \<in> set ([2020] @ [2016]). \<exists>recs. snd (hud_year fmt_blank example_fs z) = Inr recs"
    by (simp add: hud_year_ex_2020 hud_year_ex_2016)
  from t have same: "snd (load_hud_fmr fmt_blank example_fs (Some ([2020] @ 2014 # [2016])))
       = snd (load_hud_fmr fmt_blank example_fs (Some ([2020] @ [2016])))"
    by blast
  from t others obtain fr where
    fr: "snd (load_hud_fmr fmt_blank example_fs (Some ([2020] @ 2014 # [2016]))) = Inr fr"
    "frame_rows fr = concat (map (\<lambda>z. projr (snd (hud_year fmt_blank example_fs z))) ([2020] @ [2016]))"
    "set (fst (hud_year fmt_blank example_fs 2014))
        \<subseteq> set (fst (load_hud_fmr fmt_blank example_fs (Some ([2020] @ 2014 # [2016]))))"
    by blast
  have rows: "frame_rows fr
             = [\<lparr>year = 2020, geo_name = ''Otter Tail County, Minnesota'',
                  hud_fmr_2br = Scalar (Num (FFin 700))\<rparr>,
                 \<lparr>year = 2020, geo_name = ''Fergus Falls city, Minnesota'',
                  hud_fmr_2br = Scalar (Num (FFin 700))\<rparr>]"
    using fr(2) by (simp add: hud_year_ex_2020 hud_year_ex_2016)
  have lg: "ReadFailed 2014 ''2014/FY2014_4050_RevFinal.xls''
       \<in> set (fst (load_hud_fmr fmt_blank example_fs (Some ([2020] @ 2014 # [2016]))))"
    using fr(3) by (simp add: hud_year_ex_2014)
  have ex: "\<exists>fr. snd (load_hud_fmr fmt_blank example_fs (Some ([2020] @ 2014 # [2016]))) = Inr fr
         \<and> frame_rows fr
             = [\<lparr>year = 2020, geo_name = ''Otter Tail County, Minnesota'',
                  hud_fmr_2br = Scalar (Num (FFin 700))\<rparr>,
                 \<lparr>year = 2020, geo_name = ''Fergus Falls city, Minnesota'',
                  hud_fmr_2br = Scalar (Num (FFin 700))\<rparr>]"
    using fr(1) rows by blast
  show ?thesis using cfg st hud_year_ex_2014 [of fmt_blank] same ex lg by simp
qed

text \<open>A workbook that is read and has the two known columns but no \<^verbatim>\<open>countyname\<close> column:
  the year prints nothing and is not skipped, its \<^verbatim>\<open>KeyError\<close> leaves \<^verbatim>\<open>load_hud_fmr\<close>,
  and the records of the year after it are lost.\<close>
theorem hud_missing_countyname_counterexample:
  "map_of HUD_FMR_FILES 2017 = Some ''2017/FY2017-4050-County-Level_Data.xlsx''
   \<and> example_fs ''2017/FY2017-4050-County-Level_Data.xlsx'' = Workbook hud_no_county_table
   \<and> hud_year fmt_blank example_fs 2017 = ([], Inl KeyError)
   \<and> snd (hud_year fmt_blank example_fs 2020)
       = Inr [\<lparr>year = 2020, geo_name = ''Otter Tail County, Minnesota'',
                 hud_fmr_2br = Scalar (Num (FFin 700))\<rparr>,
               \<lparr>year = 2020, geo_name = ''Fergus Falls city, Minnesota'',
                 hud_fmr_2br = Scalar (Num (FFin 700))\<rparr>]
   \<and> load_hud_fmr fmt_blank example_fs (Some [2017, 2020]) = ([], Inl KeyError)"
  by (simp add: load_hud_fmr_def hud_year_ex_2017 hud_year_ex_2020 HUD_FMR_FILES_def
      example_fs_def)

subsection \<open>The frame returned by the HUD extractor\<close>

lemma expand_to_acs_geos_geo:
  "expand_to_acs_geos fmt yr row = Inr recs
   \<Longrightarrow> \<forall>r \<in> set recs. geo_name r \<in> set (otter_tail_geos @ hennepin_geos)"
  by (auto simp: expand_to_acs_geos_def Let_def split: option.splits if_splits)

lemma expand_rows_geo:
  "expand_rows fmt yr rws = Inr recs
   \<Longrightarrow> \<forall>r \<in> set recs. geo_name r \<in> set (otter_tail_geos @ hennepin_geos)"
proof (induction rws arbitrary: recs)
  case Nil
  then show ?case by simp
next
  case (Cons row rws)
  from Cons.prems obtain a b where
    a: "expand_to_acs_geos fmt yr row = Inr a" and b: "expand_rows fmt yr rws = Inr b"
    and r: "recs = a @ b"
    by (auto split: sum.splits)
  from expand_to_acs_geos_geo [OF a] Cons.IH [OF b] r show ?case by auto
qed

lemma hud_year_geo:
  assumes "snd (hud_year fmt fs y) = Inr recs"
  shows "\<forall>r \<in> set recs. geo_name r \<in> set (otter_tail_geos @ hennepin_geos)"
proof -
  from assms consider (skip) "recs = []" | (table) rws where "expand_rows fmt y rws = Inr recs"
    by (auto simp: hud_year_def split: option.splits file_state.splits sum.splits if_splits)
  then show ?thesis
  proof cases
    case skip
    then show ?thesis by simp
  next
    case table
    then show ?thesis by (rule expand_rows_geo)
  qed
qed

lemma hud_loop_geo:
  "hud_loop fmt fs ys lg frames = (lg', Inr frames')
   \<Longrightarrow> \<forall>f \<in> set frames. \<forall>r \<in> set f. geo_name r \<in> set (otter_tail_geos @ hennepin_geos)
   \<Longrightarrow> \<forall>f \<in> set frames'. \<forall>r \<in> set f. geo_name r \<in> set (otter_tail_geos @ hennepin_geos)"
proof (induction ys arbitrary: lg frames)
  case Nil
  then show ?case by simp
next
  case (Cons y ys)
  obtain out res where yr: "hud_year fmt fs y = (out, res)" by (cases "hud_year fmt fs y")
  show ?case
  proof (cases res)
    case (Inl e)
    with yr Cons.prems(1) show ?thesis by simp
  next
    case (Inr recs)
    let ?fr = "if recs = [] then frames else frames @ [recs]"
    from yr Inr have "snd (hud_year fmt fs y) = Inr recs" by simp
    from hud_year_geo [OF this] Cons.prems(2)
    have inv: "\<forall>f \<in> set ?fr. \<forall>r \<in> set f. geo_name r \<in> set (otter_tail_geos @ hennepin_geos)"
      by auto
    from yr Inr Cons.prems(1) have "hud_loop fmt fs ys (lg @ out) ?fr = (lg', Inr frames')"
      by simp
    from Cons.IH [OF this inv] show ?thesis .
  qed
qed

lemma hud_loop_no_records:
  "\<forall>y \<in> set ys. snd (hud_year fmt fs y) = Inr []
   \<Longrightarrow> snd (hud_loop fmt fs ys lg frames) = Inr frames"
proof (induction ys arbitrary: lg)
  case Nil
  show ?case by simp
next
  case (Cons y ys)
  then obtain out where "hud_year fmt fs y = (out, Inr [])"
    by (cases "hud_year fmt fs y") auto
  with Cons show ?case by simp
qed

text \<open>
  C10. Every row of the frame \<^verbatim>\<open>load_hud_fmr\<close> returns names one of the four geographies.
  When no year of the list gives a record, the frame returned is empty and its columns
  are \<^verbatim>\<open>year\<close>, \<^verbatim>\<open>geo_name\<close>, \<^verbatim>\<open>hud_fmr_2br\<close>, in this order.
\<close>
theorem load_hud_fmr_frame:
  "(\<forall>fr. snd (load_hud_fmr fmt fs years) = Inr fr
       \<longrightarrow> (\<forall>r \<in> set (frame_rows fr).
              geo_name r \<in> {''Otter Tail County, Minnesota'', ''Fergus Falls city, Minnesota'',
                             ''Hennepin County, Minnesota'', ''Minneapolis city, Minnesota''}))
   \<and> ((\<forall>y \<in> set (case years of None \<Rightarrow> sort (map fst HUD_FMR_FILES) | Some ys \<Rightarrow> ys).
          snd (hud_year fmt fs y) = Inr [])
       \<longrightarrow> snd (load_hud_fmr fmt fs years)
            = Inr \<lparr>frame_columns = [''year'', ''geo_name'', ''hud_fmr_2br''], frame_rows = []\<rparr>)"
proof -
  let ?ys = "case years of None \<Rightarrow> sort (map fst HUD_FMR_FILES) | Some ys \<Rightarrow> ys"
  obtain lg res where lp: "hud_loop fmt fs ?ys [] [] = (lg, res)"
    by (cases "hud_loop fmt fs ?ys [] []")
  have four: "set (otter_tail_geos @ hennepin_geos)
      = {''Otter Tail County, Minnesota'', ''Fergus Falls city, Minnesota'',
         ''Hennepin County, Minnesota'', ''Minneapolis city, Minnesota''}"
    by (simp add: otter_tail_geos_def hennepin_geos_def)
  have p1: "\<forall>r \<in> set (frame_rows fr). geo_name r \<in> set (otter_tail_geos @ hennepin_geos)"
    if ret: "snd (load_hud_fmr fmt fs years) = Inr fr" for fr
  proof -
    from ret lp obtain frames where res: "res = Inr frames"
      by (cases res) (auto simp: load_hud_fmr_def)
    from hud_loop_geo [OF lp [unfolded res]]
    have inv: "\<forall>f \<in> set frames. \<forall>r \<in> set f. geo_name r \<in> set (otter_tail_geos @ hennepin_geos)"
      by simp
    from ret lp res have "frame_rows fr = concat frames"
      by (auto simp: load_hud_fmr_def split: if_splits)
    with inv show ?thesis by auto
  qed
  have p2: "snd (load_hud_fmr fmt fs years)
            = Inr \<lparr>frame_columns = [''year'', ''geo_name'', ''hud_fmr_2br''], frame_rows = []\<rparr>"
    if none: "\<forall>y \<in> set ?ys. snd (hud_year fmt fs y) = Inr []"
  proof -
    from hud_loop_no_records [OF none, of "[]" "[]"] lp have "res = Inr []" by simp
    with lp show ?thesis by (simp add: load_hud_fmr_def)
  qed
  show ?thesis using p1 p2 unfolding four by blast
qed

theorem load_hud_fmr_frame_witness:
  "snd (load_hud_fmr fmt_blank example_fs (Some [2014, 2016]))
     = Inr \<lparr>frame_columns = [''year'', ''geo_name'', ''hud_fmr_2br''], frame_rows = []\<rparr>
   \<and> (\<exists>fr. snd (load_hud_fmr fmt_blank example_fs (Some [2014, 2020])) = Inr fr
         \<and> map geo_name (frame_rows fr)
             = [''Otter Tail County, Minnesota'', ''Fergus Falls city, Minnesota'']
         \<and> list_all (\<lambda>r. geo_name r \<in> {''Otter Tail County, Minnesota'',
                 ''Fergus Falls city, Minnesota'', ''Hennepin County, Minnesota'',
                 ''Minneapolis city, Minnesota''}) (frame_rows fr))"
proof -
  have none: "\<forall>y \<in> set (case Some [2014, 2016] of None \<Rightarrow> sort (map fst HUD_FMR_FILES) | Some ys \<Rightarrow> ys).
          snd (hud_year fmt_blank example_fs y) = Inr []"
    by (simp add: hud_year_ex_2014 hud_year_ex_2016)
  from load_hud_fmr_frame [of fmt_blank example_fs "Some [2014, 2016]"] none
  have a: "snd (load_hud_fmr fmt_blank example_fs (Some [2014, 2016]))
     = Inr \<lparr>frame_columns = [''year'', ''geo_name'', ''hud_fmr_2br''], frame_rows = []\<rparr>"
    by blast
  let ?fr = "\<lparr>frame_columns = [''year'', ''hud_fmr_2br'', ''geo_name''],
             frame_rows = [\<lparr>year = 2020, geo_name = ''Otter Tail County, Minnesota'',
                              hud_fmr_2br = Scalar (Num (FFin 700))\<rparr>,
                           \<lparr>year = 2020, geo_name = ''Fergus Falls city, Minnesota'',
                              hud_fmr_2br = Scalar (Num (FFin 700))\<rparr>]\<rparr>"
  have ret: "snd (load_hud_fmr fmt_blank example_fs (Some [2014, 2020])) = Inr ?fr"
    by (simp add: load_hud_fmr_def hud_year_ex_2014 hud_year_ex_2020)
  from load_hud_fmr_frame [of fmt_blank example_fs "Some [2014, 2020]"] ret
  have "\<forall>r \<in> set (frame_rows ?fr).
          geo_name r \<in> {''Otter Tail County, Minnesota'', ''Fergus Falls city, Minnesota'',
                         ''Hennepin County, Minnesota'', ''Minneapolis city, Minnesota''}"
    by blast
  then have all: "list_all (\<lambda>r. geo_name r \<in> {''Otter Tail County, Minnesota'',
                 ''Fergus Falls city, Minnesota'', ''Hennepin County, Minnesota'',
                 ''Minneapolis city, Minnesota''}) (frame_rows ?fr)"
    by (simp only: list_all_iff)
  have names: "map geo_name (frame_rows ?fr)
      = [''Otter Tail County, Minnesota'', ''Fergus Falls city, Minnesota'']"
    by simp
  have b: "\<exists>fr. snd (load_hud_fmr fmt_blank example_fs (Some [2014, 2020])) = Inr fr
         \<and> map geo_name (frame_rows fr)
             = [''Otter Tail County, Minnesota'', ''Fergus Falls city, Minnesota'']
         \<and> list_all (\<lambda>r. geo_name r \<in> {''Otter Tail County, Minnesota'',
                 ''Fergus Falls city, Minnesota'', ''Hennepin County, Minnesota'',
                 ''Minneapolis city, Minnesota''}) (frame_rows fr)"
    using ret names all by (intro exI [of _ ?fr] conjI)
  from a b show ?thesis by (rule conjI)
qed

subsection \<open>The inner join\<close>

lemma set_merge_inner:
  "set (merge_inner kl kr left right) = {(l, r). l \<in> set left \<and> r \<in> set right \<and> kr r = kl l}"
  by (auto simp: merge_inner_def)

lemma merge_year_mem:
  "m \<in> set (merge_year income home_value rent)
     \<longleftrightarrow> (\<exists>i \<in> set income. \<exists>h \<in> set home_value. \<exists>r \<in> set rent.
            key_of h = key_of i \<and> key_of r = key_of i
            \<and> m = \<lparr>year = year i, geo_name = geo_name i,
                     B19013 = nan_of (metric_value i), B25077 = nan_of (metric_value h),
                     B25064 = nan_of (metric_value r)\<rparr>)"
  (is "?L \<longleftrightarrow> ?R")
proof
  let ?f = "\<lambda>((i, h), r).
            \<lparr>year = year i, geo_name = geo_name i,
             B19013 = nan_of (metric_value i), B25077 = nan_of (metric_value h),
             B25064 = nan_of (metric_value r)\<rparr>"
  let ?S = "set (merge_inner (\<lambda>(i, h). key_of i) key_of (merge_inner key_of key_of income home_value) rent)"
  have L: "set (merge_year income home_value rent) = ?f ` ?S"
    by (simp add: merge_year_def)
  {
    assume ?L
    then obtain x where x: "x \<in> ?S" "m = ?f x" unfolding L by blast
    obtain i h r where xe: "x = ((i, h), r)" by (cases x) auto
    from x(1) have "i \<in> set income" "h \<in> set home_value" "r \<in> set rent"
      "key_of h = key_of i" "key_of r = key_of i"
      unfolding xe set_merge_inner by simp_all
    moreover from x(2) have "m = \<lparr>year = year i, geo_name = geo_name i,
                     B19013 = nan_of (metric_value i), B25077 = nan_of (metric_value h),
                     B25064 = nan_of (metric_value r)\<rparr>"
      unfolding xe by simp
    ultimately show ?R by blast
  }
  {
    assume ?R
    then obtain i h r where ihr: "i \<in> set income" "h \<in> set home_value" "r \<in> set rent"
      "key_of h = key_of i" "key_of r = key_of i"
      and me: "m = ?f ((i, h), r)"
      by auto
    have "((i, h), r) \<in> ?S" using ihr unfolding set_merge_inner by simp
    then have "?f ((i, h), r) \<in> ?f ` ?S" by (rule imageI)
    then show ?L unfolding L me .
  }
qed

lemma merge_year_keys:
  "key_of ` set (merge_year income home_value rent)
     = key_of ` set income \<inter> key_of ` set home_value \<inter> key_of ` set rent"
proof (rule set_eqI, rule iffI)
  fix k
  assume "k \<in> key_of ` set (merge_year income home_value rent)"
  then obtain m where m: "m \<in> set (merge_year income home_value rent)" "k = key_of m" by blast
  from m(1) obtain i h r where ihr: "i \<in> set income" "h \<in> set home_value" "r \<in> set rent"
    "key_of h = key_of i" "key_of r = key_of i"
    "m = \<lparr>year = year i, geo_name = geo_name i,
          B19013 = nan_of (metric_value i), B25077 = nan_of (metric_value h),
          B25064 = nan_of (metric_value r)\<rparr>"
    unfolding merge_year_mem by blast
  have "k = key_of i" using m(2) ihr(6) by (simp add: key_of_def)
  then have ki: "k \<in> key_of ` set income" using ihr(1) by (rule image_eqI)
  from \<open>k = key_of i\<close> ihr(4) have "k = key_of h" by simp
  then have kh: "k \<in> key_of ` set home_value" using ihr(2) by (rule image_eqI)
  from \<open>k = key_of i\<close> ihr(5) have "k = key_of r" by simp
  then have kr: "k \<in> key_of ` set rent" using ihr(3) by (rule image_eqI)
  from ki kh kr show "k \<in> key_of ` set income \<inter> key_of ` set home_value \<inter> key_of ` set rent" by simp
next
  fix k
  assume "k \<in> key_of ` set income \<inter> key_of ` set home_value \<inter> key_of ` set rent"
  then obtain i h r where ihr: "i \<in> set income" "h \<in> set home_value" "r \<in> set rent"
    "k = key_of i" "k = key_of h" "k = key_of r"
    by blast
  let ?m = "\<lparr>year = year i, geo_name = geo_name i,
          B19013 = nan_of (metric_value i), B25077 = nan_of (metric_value h),
          B25064 = nan_of (metric_value r)\<rparr>"
  have "?m \<in> set (merge_year income home_value rent)"
    unfolding merge_year_mem
    apply (rule bexI [where x = i])
     apply (rule bexI [where x = h])
      apply (rule bexI [where x = r])
    using ihr apply simp_all
    done
  moreover have "key_of ?m = k" using ihr(4) by (simp add: key_of_def)
  ultimately show "k \<in> key_of ` set (merge_year income home_value rent)" by force
qed

subsection \<open>The allow-list\<close>

lemmas extract_defs = extract_table_def select_row_def cell_at_def label_col_def
  estimate_cols_def cell_value_def

lemma load_example_income:
  "load_single_table example_read_table 2020 ''B19013''
     = Inr [\<lparr>year = 2020, geo_name = ''Hennepin County, Minnesota'', metric_value = Some (FFin 50000)\<rparr>,
            \<lparr>year = 2020, geo_name = ''Ramsey County, Minnesota'', metric_value = Some (FFin 60000)\<rparr>]"
  by (simp add: load_single_table_def example_read_table_def acs_income_50k_table_def
      extract_defs text_defs float_defs)

lemma load_example_home:
  "load_single_table example_read_table 2020 ''B25077''
     = Inr [\<lparr>year = 2020, geo_name = ''Hennepin County, Minnesota'', metric_value = Some (FFin 200000)\<rparr>,
            \<lparr>year = 2020, geo_name = ''Ramsey County, Minnesota'', metric_value = Some (FFin 180000)\<rparr>]"
  by (simp add: load_single_table_def example_read_table_def acs_home_table_def
      extract_defs text_defs float_defs)

lemma load_example_rent:
  "load_single_table example_read_table 2020 ''B25064''
     = Inr [\<lparr>year = 2020, geo_name = ''Hennepin County, Minnesota'', metric_value = Some (FFin 1000)\<rparr>,
            \<lparr>year = 2020, geo_name = ''Ramsey County, Minnesota'', metric_value = Some (FFin 900)\<rparr>]"
  by (simp add: load_single_table_def example_read_table_def acs_rent_table_def
      extract_defs text_defs float_defs)

lemma load_example_years:
  "load_years example_read_table [2020]
     = Inr [[\<lparr>year = 2020, geo_name = ''Hennepin County, Minnesota'',
              B19013 = FFin 50000, B25077 = FFin 200000, B25064 = FFin 1000\<rparr>,
             \<lparr>year = 2020, geo_name = ''Ramsey County, Minnesota'',
              B19013 = FFin 60000, B25077 = FFin 180000, B25064 = FFin 900\<rparr>]]"
  by (simp add: load_example_income load_example_home load_example_rent merge_year_def
      merge_inner_def key_of_def nan_of_def)

lemma key_of_add_ratios: "key_of (add_ratios m) = key_of m"
  by (simp add: key_of_def add_ratios_def)

lemma target_names_eq:
  "target_names = {''Fergus Falls city, Minnesota'', ''Otter Tail County, Minnesota'',
                   ''Minneapolis city, Minnesota'', ''Hennepin County, Minnesota''}"
  by (simp add: target_names_def TARGET_GEOS_def)

text \<open>
  C9. Every row \<^verbatim>\<open>load_acs_affordability\<close> returns names one of the four geographies of
  the allow-list, by equality of strings; the rows returned are the joined rows of all
  years with the rows of every other geography taken out.
\<close>
theorem load_acs_affordability_allow_list:
  assumes "load_acs_affordability read_table years = Inr out"
  shows "(\<forall>a \<in> set out.
            geo_name a \<in> {''Fergus Falls city, Minnesota'', ''Otter Tail County, Minnesota'',
                           ''Minneapolis city, Minnesota'', ''Hennepin County, Minnesota''})
    \<and> (\<exists>frames. load_years read_table (case years of None \<Rightarrow> YEARS | Some ys \<Rightarrow> ys) = Inr frames
          \<and> map key_of out
              = filter (\<lambda>k. fst k \<in> {''Fergus Falls city, Minnesota'', ''Otter Tail County, Minnesota'',
                                        ''Minneapolis city, Minnesota'', ''Hennepin County, Minnesota''})
                  (map key_of (concat frames)))"
proof -
  let ?ys = "case years of None \<Rightarrow> YEARS | Some ys \<Rightarrow> ys"
  from assms obtain frames where fr: "load_years read_table ?ys = Inr frames"
    and out: "out = map add_ratios (filter (\<lambda>r. geo_name r \<in> target_names) (concat frames))"
    by (auto simp: load_acs_affordability_def split: sum.splits if_splits)
  have geo: "geo_name (add_ratios m) = geo_name m" for m
    by (simp add: add_ratios_def)
  have p1: "\<forall>a \<in> set out. geo_name a \<in> target_names"
    unfolding out by (auto simp: geo)
  have "map key_of out = map key_of (filter (\<lambda>r. geo_name r \<in> target_names) (concat frames))"
    unfolding out by (simp add: key_of_add_ratios comp_def)
  also have "\<dots> = filter (\<lambda>k. fst k \<in> target_names) (map key_of (concat frames))"
    by (simp add: filter_map comp_def key_of_def)
  finally have p2: "map key_of out = filter (\<lambda>k. fst k \<in> target_names) (map key_of (concat frames))" .
  show ?thesis using p1 p2 fr unfolding target_names_eq by blast
qed

theorem load_acs_affordability_allow_list_witness:
  "load_acs_affordability example_read_table (Some [2020])
     = Inr [\<lparr>year = 2020, geo_name = ''Hennepin County, Minnesota'',
             median_household_income = FFin 50000, median_home_value = FFin 200000,
             median_gross_rent = FFin 1000, price_to_income = FFin 4,
             rent_to_income = FFin (6 / 25)\<rparr>]
   \<and> (\<exists>frames. load_years example_read_table [2020] = Inr frames
         \<and> map key_of (concat frames)
             = [(''Hennepin County, Minnesota'', 2020), (''Ramsey County, Minnesota'', 2020)])
   \<and> (\<exists>out. load_acs_affordability example_read_table (Some [2020]) = Inr out
         \<and> map key_of out = [(''Hennepin County, Minnesota'', 2020)]
         \<and> list_all (\<lambda>a. geo_name a \<in> {''Fergus Falls city, Minnesota'',
                 ''Otter Tail County, Minnesota'', ''Minneapolis city, Minnesota'',
                 ''Hennepin County, Minnesota''}) out)"
proof -
  let ?out = "[\<lparr>year = 2020, geo_name = ''Hennepin County, Minnesota'',
             median_household_income = FFin 50000, median_home_value = FFin 200000,
             median_gross_rent = FFin 1000, price_to_income = FFin 4,
             rent_to_income = FFin (6 / 25)\<rparr>]"
  have ret: "load_acs_affordability example_read_table (Some [2020]) = Inr ?out"
    by (simp add: load_acs_affordability_def load_example_years target_names_eq add_ratios_def
        del: load_years.simps)
  from load_acs_affordability_allow_list [OF ret]
  have all: "\<forall>a \<in> set ?out.
            geo_name a \<in> {''Fergus Falls city, Minnesota'', ''Otter Tail County, Minnesota'',
                           ''Minneapolis city, Minnesota'', ''Hennepin County, Minnesota''}"
    by blast
  then have la: "list_all (\<lambda>a. geo_name a \<in> {''Fergus Falls city, Minnesota'',
                 ''Otter Tail County, Minnesota'', ''Minneapolis city, Minnesota'',
                 ''Hennepin County, Minnesota''}) ?out"
    by (simp only: list_all_iff)
  have keys: "map key_of ?out = [(''Hennepin County, Minnesota'', 2020)]"
    by (simp add: key_of_def)
  have fr: "\<exists>frames. load_years example_read_table [2020] = Inr frames
         \<and> map key_of (concat frames)
             = [(''Hennepin County, Minnesota'', 2020), (''Ramsey County, Minnesota'', 2020)]"
    by (simp add: load_example_years key_of_def del: load_years.simps)
  have ex: "\<exists>out. load_acs_affordability example_read_table (Some [2020]) = Inr out
         \<and> map key_of out = [(''Hennepin County, Minnesota'', 2020)]
         \<and> list_all (\<lambda>a. geo_name a \<in> {''Fergus Falls city, Minnesota'',
                 ''Otter Tail County, Minnesota'', ''Minneapolis city, Minnesota'',
                 ''Hennepin County, Minnesota''}) out"
    using ret keys la by (intro exI [of _ ?out] conjI)
  from ret fr ex show ?thesis by (intro conjI)
qed

subsection \<open>The ratios of a row with an income\<close>

text \<open>
  The part of C1 that the code keeps: with finite non-zero numbers the two ratios are the
  home value over the income and twelve times the rent over the income, and an absent
  income makes both ratios absent.
\<close>
theorem add_ratios_values:
  "(B19013 m = FNaN
      \<longrightarrow> price_to_income (add_ratios m) = FNaN \<and> rent_to_income (add_ratios m) = FNaN)
   \<and> (\<forall>i h r. B19013 m = FFin i \<and> B25077 m = FFin h \<and> B25064 m = FFin r
        \<longrightarrow> price_to_income (add_ratios m) = FFin (h / i)
            \<and> rent_to_income (add_ratios m) = FFin (r * 12 / i))"
proof -
  have nan: "fdiv x FNaN = FNaN" for x
    by (cases x) simp_all
  show ?thesis
    by (simp add: add_ratios_def nan)
qed

theorem add_ratios_values_witness:
  "price_to_income (add_ratios sample_row) = FFin 4
   \<and> rent_to_income (add_ratios sample_row) = FFin (6 / 25)
   \<and> price_to_income (add_ratios absent_income_row) = FNaN
   \<and> rent_to_income (add_ratios absent_income_row) = FNaN"
proof -
  have a: "B19013 sample_row = FFin 50000 \<and> B25077 sample_row = FFin 200000
      \<and> B25064 sample_row = FFin 1000"
    by (simp add: sample_row_def)
  from add_ratios_values [of sample_row] a
  have "price_to_income (add_ratios sample_row) = FFin (200000 / 50000)
      \<and> rent_to_income (add_ratios sample_row) = FFin (1000 * 12 / 50000)"
    by blast
  then have r1: "price_to_income (add_ratios sample_row) = FFin 4
      \<and> rent_to_income (add_ratios sample_row) = FFin (6 / 25)"
    by simp
  have b: "B19013 absent_income_row = FNaN"
    by (simp add: absent_income_row_def)
  from add_ratios_values [of absent_income_row] b
  have r2: "price_to_income (add_ratios absent_income_row) = FNaN
      \<and> rent_to_income (add_ratios absent_income_row) = FNaN"
    by blast
  from r1 r2 show ?thesis by simp
qed

subsection \<open>The frame of each year\<close>

lemma load_years_frames:
  "load_years read_table ys = Inr frames
   \<Longrightarrow> frames = map (\<lambda>y. merge_year (projr (load_single_table read_table y ''B19013''))
                                   (projr (load_single_table read_table y ''B25077''))
                                   (projr (load_single_table read_table y ''B25064''))) ys"
proof (induction ys arbitrary: frames)
  case Nil
  then show ?case by simp
next
  case (Cons y ys)
  from Cons.prems obtain i h r rest where
    "load_single_table read_table y ''B19013'' = Inr i"
    "load_single_table read_table y ''B25077'' = Inr h"
    "load_single_table read_table y ''B25064'' = Inr r"
    "load_years read_table ys = Inr rest" "frames = merge_year i h r # rest"
    by (auto split: sum.splits)
  with Cons.IH [of rest] show ?case by simp
qed

text \<open>
  C7. The frame of each year is the merge of the three tables of that year, and the keys
  (geography, year) of its rows are exactly the keys that stand in all three tables: a
  geography that one of the three tables lacks for that year is in no merged row.
\<close>
theorem reconciler_inner_join:
  "key_of ` set (merge_year income home_value rent)
     = key_of ` set income \<inter> key_of ` set home_value \<inter> key_of ` set rent
   \<and> (\<forall>frames. load_years read_table ys = Inr frames
        \<longrightarrow> frames = map (\<lambda>y. merge_year (projr (load_single_table read_table y ''B19013''))
                                        (projr (load_single_table read_table y ''B25077''))
                                        (projr (load_single_table read_table y ''B25064''))) ys)"
  using merge_year_keys [of income home_value rent] load_years_frames [of read_table ys]
  by blast

theorem reconciler_inner_join_witness:
  "key_of ` set (merge_year income_records home_value_records rent_records)
     = {(''Hennepin County, Minnesota'', 2020)}
   \<and> (''Otter Tail County, Minnesota'', 2020) \<in> key_of ` set income_records
   \<and> (''Otter Tail County, Minnesota'', 2020) \<in> key_of ` set home_value_records
   \<and> (''Otter Tail County, Minnesota'', 2020) \<notin> key_of ` set rent_records
   \<and> (''Otter Tail County, Minnesota'', 2020)
        \<notin> key_of ` set (merge_year income_records home_value_records rent_records)
   \<and> load_years example_read_table [2020]
       = Inr [merge_year (projr (load_single_table example_read_table 2020 ''B19013''))
                         (projr (load_single_table example_read_table 2020 ''B25077''))
                         (projr (load_single_table example_read_table 2020 ''B25064''))]"
proof -
  note t = reconciler_inner_join [of income_records home_value_records rent_records
      example_read_table "[2020]"]
  have i: "key_of ` set income_records
      = {(''Hennepin County, Minnesota'', 2020), (''Otter Tail County, Minnesota'', 2020)}"
    by (simp add: income_records_def key_of_def)
  have h: "key_of ` set home_value_records
      = {(''Hennepin County, Minnesota'', 2020), (''Otter Tail County, Minnesota'', 2020)}"
    by (simp add: home_value_records_def key_of_def)
  have r: "key_of ` set rent_records = {(''Hennepin County, Minnesota'', 2020)}"
    by (simp add: rent_records_def key_of_def)
  from t have "key_of ` set (merge_year income_records home_value_records rent_records)
      = key_of ` set income_records \<inter> key_of ` set home_value_records \<inter> key_of ` set rent_records"
    by blast
  then have m: "key_of ` set (merge_year income_records home_value_records rent_records)
      = {(''Hennepin County, Minnesota'', 2020)}"
    unfolding i h r by simp
  obtain frames where fr: "load_years example_read_table [2020] = Inr frames"
    using load_example_years by blast
  with t have "frames = map (\<lambda>y. merge_year (projr (load_single_table example_read_table y ''B19013''))
                                   (projr (load_single_table example_read_table y ''B25077''))
                                   (projr (load_single_table example_read_table y ''B25064''))) [2020]"
    by blast
  with fr have l: "load_years example_read_table [2020]
       = Inr [merge_year (projr (load_single_table example_read_table 2020 ''B19013''))
                         (projr (load_single_table example_read_table 2020 ''B25077''))
                         (projr (load_single_table example_read_table 2020 ''B25064''))]"
    by simp
  show ?thesis unfolding m using i h r l by simp
qed

end
